theory Spec2Isabelle
  imports Main "HOL-Library.Word"
begin

unbundle bit_operations_syntax

section \<open>Machine integers, byte streams and results\<close>

type_synonym u8 = "8 word"
type_synonym u16 = "16 word"
type_synonym u32 = "32 word"

text \<open>Go's \<open>int32\<close>: a 32-bit word read as two's complement with \<open>sint\<close>.\<close>

type_synonym i32 = "32 word"

text \<open>
  An \<open>io.Reader\<close> is the list of bytes it still has to deliver; a read that finds the
  list too short ends in \<open>io.EOF\<close> (nothing read) or \<open>io.ErrUnexpectedEOF\<close>.
\<close>

type_synonym reader = "u8 list"

subsection \<open>The error taxonomy (\<open>ErrorCode\<close>, \<open>VNCError\<close>)\<close>

datatype ErrorCode =
    ErrProtocol
  | ErrAuthentication
  | ErrEncoding
  | ErrNetwork
  | ErrConfiguration
  | ErrTimeout
  | ErrValidation
  | ErrUnsupported

text \<open>
  A Go \<open>error\<close> value: one of the two \<open>io\<close> sentinels, a failure reported by the
  \<open>net.Conn\<close>, the key-size error of \<open>crypto/des\<close>, or a \<open>VNCError\<close> with its fields \<open>Op\<close>, \<open>Code\<close>, \<open>Message\<close> and \<open>Err\<close>
  (the wrapped cause, \<open>None\<close> for \<open>nil\<close>). \<open>Message\<close> keeps the literal text of the
  source; the arguments that \<open>fmt.Sprintf\<close> renders into it are left out.
\<close>

datatype error =
    EOF
  | ErrUnexpectedEOF
  | ConnError
  | KeySizeError
  | VNCError string ErrorCode string "error option"

fun Code :: "error \<Rightarrow> ErrorCode option" where
  "Code (VNCError opn c m e) = Some c"
| "Code _ = None"

definition protocolError :: "string \<Rightarrow> string \<Rightarrow> error option \<Rightarrow> error" where
  "protocolError opn message err = VNCError opn ErrProtocol message err"

definition authenticationError :: "string \<Rightarrow> string \<Rightarrow> error option \<Rightarrow> error" where
  "authenticationError opn message err = VNCError opn ErrAuthentication message err"

definition encodingError :: "string \<Rightarrow> string \<Rightarrow> error option \<Rightarrow> error" where
  "encodingError opn message err = VNCError opn ErrEncoding message err"

definition networkError :: "string \<Rightarrow> string \<Rightarrow> error option \<Rightarrow> error" where
  "networkError opn message err = VNCError opn ErrNetwork message err"

definition validationError :: "string \<Rightarrow> string \<Rightarrow> error option \<Rightarrow> error" where
  "validationError opn message err = VNCError opn ErrValidation message err"

definition unsupportedError :: "string \<Rightarrow> string \<Rightarrow> error option \<Rightarrow> error" where
  "unsupportedError opn message err = VNCError opn ErrUnsupported message err"

text \<open>
  The outcome of a call: a value, a returned \<open>error\<close>, or a run-time panic (an index or
  a slice bound out of range), which no caller in the package recovers from.
\<close>

datatype 'a result = Ok 'a | Err error | Panic string

subsection \<open>Reading big-endian values\<close>

text \<open>\<open>io.ReadFull\<close> into a buffer of \<open>n\<close> bytes.\<close>

definition ReadFull :: "reader \<Rightarrow> nat \<Rightarrow> (u8 list \<times> reader) result" where
  "ReadFull r n =
     (if n \<le> length r then Ok (take n r, drop n r)
      else if r = [] then Err EOF
      else Err ErrUnexpectedEOF)"

definition be_u16 :: "u8 \<Rightarrow> u8 \<Rightarrow> u16" where
  "be_u16 b0 b1 = push_bit 8 (ucast b0) OR ucast b1"

definition be_u32 :: "u8 \<Rightarrow> u8 \<Rightarrow> u8 \<Rightarrow> u8 \<Rightarrow> u32" where
  "be_u32 b0 b1 b2 b3 =
     push_bit 24 (ucast b0) OR push_bit 16 (ucast b1) OR push_bit 8 (ucast b2) OR ucast b3"

text \<open>\<open>binary.Read(r, binary.BigEndian, &v)\<close> for \<open>v\<close> of type uint8, uint16, uint32.\<close>

definition read_u8 :: "reader \<Rightarrow> (u8 \<times> reader) result" where
  "read_u8 r =
     (case ReadFull r 1 of
        Ok (bs, r') \<Rightarrow> Ok (hd bs, r')
      | Err e \<Rightarrow> Err e
      | Panic p \<Rightarrow> Panic p)"

definition read_u16 :: "reader \<Rightarrow> (u16 \<times> reader) result" where
  "read_u16 r =
     (case ReadFull r 2 of
        Ok (bs, r') \<Rightarrow> Ok (be_u16 (bs ! 0) (bs ! 1), r')
      | Err e \<Rightarrow> Err e
      | Panic p \<Rightarrow> Panic p)"

definition read_u32 :: "reader \<Rightarrow> (u32 \<times> reader) result" where
  "read_u32 r =
     (case ReadFull r 4 of
        Ok (bs, r') \<Rightarrow> Ok (be_u32 (bs ! 0) (bs ! 1) (bs ! 2) (bs ! 3), r')
      | Err e \<Rightarrow> Err e
      | Panic p \<Rightarrow> Panic p)"

text \<open>\<open>binary.Write(&buf, binary.BigEndian, v)\<close>: the bytes appended for \<open>v\<close>.\<close>

definition put_u16 :: "u16 \<Rightarrow> u8 list" where
  "put_u16 v = [ucast (drop_bit 8 v), ucast v]"

definition put_u32 :: "u32 \<Rightarrow> u8 list" where
  "put_u32 v = [ucast (drop_bit 24 v), ucast (drop_bit 16 v), ucast (drop_bit 8 v), ucast v]"

text \<open>
  A \<open>bytes.Buffer\<close> that starts empty allocates a backing array of \<open>smallBufferSize\<close>
  zero bytes on its first write and keeps it while the contents fit. The slice
  expression \<open>buf.Bytes()[0:n]\<close> may reach past the written bytes into that array; past
  its capacity it panics. \<open>bufcap\<close> is the capacity the library gives a buffer that has
  outgrown the small array, as a function of the number of bytes written.
\<close>

definition smallBufferSize :: nat where
  "smallBufferSize = 64"

definition Buffer_cap :: "(nat \<Rightarrow> nat) \<Rightarrow> nat \<Rightarrow> nat" where
  "Buffer_cap bufcap n = (if n \<le> smallBufferSize then smallBufferSize else max n (bufcap n))"

definition Bytes_upto :: "(nat \<Rightarrow> nat) \<Rightarrow> u8 list \<Rightarrow> nat \<Rightarrow> u8 list result" where
  "Bytes_upto bufcap written n =
     (if n \<le> Buffer_cap bufcap (length written)
      then Ok (take n (written @ replicate (Buffer_cap bufcap (length written) - length written) 0))
      else Panic ''slice bounds out of range'')"

subsection \<open>Sequencing calls that may fail\<close>

definition rbind :: "'a result \<Rightarrow> ('a \<Rightarrow> 'b result) \<Rightarrow> 'b result" where
  "rbind m f = (case m of Ok x \<Rightarrow> f x | Err e \<Rightarrow> Err e | Panic p \<Rightarrow> Panic p)"

text \<open>
  \<open>if err != nil { return ..., mk(err) }\<close>: a returned error is wrapped by \<open>mk\<close>, a
  panic passes through.
\<close>

definition wrap :: "(error option \<Rightarrow> error) \<Rightarrow> 'a result \<Rightarrow> 'a result" where
  "wrap mk m = (case m of Ok x \<Rightarrow> Ok x | Err e \<Rightarrow> Err (mk (Some e)) | Panic p \<Rightarrow> Panic p)"

section \<open>Pixel formats\<close>

record PixelFormat =
  BPP :: u8
  Depth :: u8
  BigEndian :: bool
  TrueColor :: bool
  RedMax :: u16
  GreenMax :: u16
  BlueMax :: u16
  RedShift :: u8
  GreenShift :: u8
  BlueShift :: u8

text \<open>The zero value of the struct, as \<open>var pixelFormat PixelFormat\<close> declares it.\<close>

definition PixelFormat_zero :: PixelFormat where
  "PixelFormat_zero =
     \<lparr>BPP = 0, Depth = 0, BigEndian = False, TrueColor = False,
      RedMax = 0, GreenMax = 0, BlueMax = 0,
      RedShift = 0, GreenShift = 0, BlueShift = 0\<rparr>"

subsection \<open>\<open>readPixelFormat\<close> and \<open>writePixelFormat\<close>\<close>

text \<open>
  \<open>readPixelFormat\<close> fills the struct \<open>result\<close> points to, field by field, from the 16
  bytes it read; a field it does not assign keeps the value it had.
\<close>

definition readPixelFormat :: "reader \<Rightarrow> PixelFormat \<Rightarrow> (PixelFormat \<times> reader) result" where
  "readPixelFormat r result =
     rbind (wrap (networkError ''readPixelFormat'' ''failed to read pixel format data'')
              (ReadFull r 16)) (\<lambda>(rawPixelFormat, r').
     rbind (wrap (protocolError ''readPixelFormat'' ''failed to read BPP field'')
              (read_u8 rawPixelFormat)) (\<lambda>(bpp, br1).
     rbind (wrap (protocolError ''readPixelFormat'' ''failed to read depth field'')
              (read_u8 br1)) (\<lambda>(depth, br2).
     rbind (wrap (protocolError ''readPixelFormat'' ''failed to read big endian flag'')
              (read_u8 br2)) (\<lambda>(pfBoolByte, br3).
     let result1 = result\<lparr>BPP := bpp, Depth := depth\<rparr>;
         result2 = (if pfBoolByte \<noteq> 0 then result1\<lparr>BigEndian := True\<rparr> else result1) in
     rbind (wrap (protocolError ''readPixelFormat'' ''failed to read true color flag'')
              (read_u8 br3)) (\<lambda>(pfBoolByte, br4).
     if pfBoolByte \<noteq> 0 then
       rbind (wrap (protocolError ''readPixelFormat'' ''failed to read red max value'')
                (read_u16 br4)) (\<lambda>(redMax, br5).
       rbind (wrap (protocolError ''readPixelFormat'' ''failed to read green max value'')
                (read_u16 br5)) (\<lambda>(greenMax, br6).
       rbind (wrap (protocolError ''readPixelFormat'' ''failed to read blue max value'')
                (read_u16 br6)) (\<lambda>(blueMax, br7).
       rbind (wrap (protocolError ''readPixelFormat'' ''failed to read red shift value'')
                (read_u8 br7)) (\<lambda>(redShift, br8).
       rbind (wrap (protocolError ''readPixelFormat'' ''failed to read green shift value'')
                (read_u8 br8)) (\<lambda>(greenShift, br9).
       rbind (wrap (protocolError ''readPixelFormat'' ''failed to read blue shift value'')
                (read_u8 br9)) (\<lambda>(blueShift, br10).
       Ok (result2\<lparr>TrueColor := True, RedMax := redMax, GreenMax := greenMax,
                     BlueMax := blueMax, RedShift := redShift, GreenShift := greenShift,
                     BlueShift := blueShift\<rparr>, r')))))))
     else Ok (result2, r'))))))"

definition boolByte :: "bool \<Rightarrow> u8" where
  "boolByte b = (if b then 1 else 0)"

text \<open>
  \<open>writePixelFormat\<close> writes four bytes, nine more for a true-colour format, and
  returns \<open>buf.Bytes()[0:16]\<close>: the rest of the 16 bytes comes from the buffer's
  backing array.
\<close>

definition writePixelFormat :: "PixelFormat \<Rightarrow> u8 list result" where
  "writePixelFormat format =
     (let buf = [BPP format, Depth format, boolByte (BigEndian format),
                 boolByte (TrueColor format)] @
                (if TrueColor format
                 then put_u16 (RedMax format) @ put_u16 (GreenMax format) @
                      put_u16 (BlueMax format) @
                      [RedShift format, GreenShift format, BlueShift format]
                 else [])
      in Bytes_upto (\<lambda>n. n) buf 16)"

subsection \<open>\<open>InputValidator.ValidatePixelFormat\<close>\<close>

text \<open>\<open>InputValidator.countBits\<close>: clears the lowest set bit until none is left.\<close>

function countBits :: "u32 \<Rightarrow> nat" where
  "countBits value = (if value \<noteq> 0 then 1 + countBits (value AND (value - 1)) else 0)"
  by pat_completeness auto
termination
proof (relation "measure unat")
  show "wf (measure (unat :: u32 \<Rightarrow> nat))"
    by simp
next
  fix "value" :: u32
  assume nz: "value \<noteq> 0"
  have "value AND (value - 1) \<le> value - 1"
    by (rule word_and_le1)
  moreover have "value - 1 < value"
    using nz by (simp add: word_less_nat_alt unat_minus_one unat_gt_0)
  ultimately have "value AND (value - 1) < value"
    by simp
  then show "(value AND (value - 1), value) \<in> measure unat"
    by (simp add: word_less_nat_alt)
qed

declare countBits.simps [simp del]

definition ValidatePixelFormat :: "PixelFormat option \<Rightarrow> error option" where
  "ValidatePixelFormat pfp =
     (case pfp of
        None \<Rightarrow> Some (validationError ''InputValidator.ValidatePixelFormat''
                        ''pixel format cannot be nil'' None)
      | Some pf \<Rightarrow>
          if \<not> (BPP pf = 8 \<or> BPP pf = 16 \<or> BPP pf = 32)
          then Some (validationError ''InputValidator.ValidatePixelFormat''
                       ''invalid bits per pixel: %d (must be 8, 16, or 32)'' None)
          else if Depth pf = 0 \<or> Depth pf > BPP pf
          then Some (validationError ''InputValidator.ValidatePixelFormat''
                       ''invalid depth: %d (must be 1-%d for %d BPP)'' None)
          else if TrueColor pf then
            (if RedMax pf = 0 \<or> GreenMax pf = 0 \<or> BlueMax pf = 0
             then Some (validationError ''InputValidator.ValidatePixelFormat''
                          ''color component maximums cannot be zero in true color format'' None)
             else let maxShift = BPP pf - 1 in
               if RedShift pf \<ge> maxShift \<or> GreenShift pf \<ge> maxShift \<or> BlueShift pf \<ge> maxShift
               then Some (validationError ''InputValidator.ValidatePixelFormat''
                            ''color shifts too large for %d BPP format'' None)
               else let redBits = countBits (ucast (RedMax pf));
                        greenBits = countBits (ucast (GreenMax pf));
                        blueBits = countBits (ucast (BlueMax pf)) in
                 if redBits + greenBits + blueBits > unat (Depth pf)
                 then Some (validationError ''InputValidator.ValidatePixelFormat''
                              ''color component bits exceed pixel depth'' None)
                 else None)
          else None)"

subsection \<open>\<open>InputValidator.ValidateRectangle\<close>\<close>

definition ValidateRectangle :: "u16 \<Rightarrow> u16 \<Rightarrow> u16 \<Rightarrow> u16 \<Rightarrow> u16 \<Rightarrow> u16 \<Rightarrow> error option" where
  "ValidateRectangle x y width height fbWidth fbHeight =
     (if width = 0 \<or> height = 0
      then Some (validationError ''InputValidator.ValidateRectangle''
                   ''rectangle dimensions cannot be zero'' None)
      else if x > 65535 - width \<or> y > 65535 - height
      then Some (validationError ''InputValidator.ValidateRectangle''
                   ''rectangle coordinates would cause integer overflow'' None)
      else if x + width > fbWidth \<or> y + height > fbHeight
      then Some (validationError ''InputValidator.ValidateRectangle''
                   ''rectangle (%d,%d,%d,%d) exceeds framebuffer bounds (%d,%d)'' None)
      else None)"

section \<open>Colours, the colour map and the connection state\<close>

record Color =
  R :: u16
  G :: u16
  B :: u16

definition Color_zero :: Color where
  "Color_zero = \<lparr>R = 0, G = 0, B = 0\<rparr>"

text \<open>
  \<open>[ColorMapSize]Color\<close>, an array of 256 entries: a total function of the 8-bit index.
  An index expression with a wider index checks it against \<open>ColorMapSize\<close> first.
\<close>

type_synonym ColorMap = "u8 \<Rightarrow> Color"

definition ColorMapSize :: nat where
  "ColorMapSize = 256"

text \<open>
  A rectangle of a framebuffer update. \<open>'e\<close> is the type of \<open>Encoding\<close> values; \<open>Enc\<close> is
  \<open>None\<close> until a decoder has filled it.
\<close>

record 'e Rectangle =
  X :: u16
  Y :: u16
  Width :: u16
  Height :: u16
  Enc :: "'e option"

text \<open>
  The exported state of \<open>ClientConn\<close>. The \<open>net.Conn\<close> it owns is represented by
  \<open>written\<close>, the bytes sent to the server so far; what the server sends is the
  \<open>reader\<close> the parsing functions take.
\<close>

record 'e ClientConn =
  ColorMap :: ColorMap
  Encs :: "'e list"
  FrameBufferWidth :: u16
  FrameBufferHeight :: u16
  DesktopName :: "u8 list"
  PixelFormat :: PixelFormat
  written :: "u8 list"

section \<open>The pixel reader\<close>

datatype ByteOrder = binary_LittleEndian | binary_BigEndian

record PixelReader =
  pixelFormat :: PixelFormat
  colorMap :: ColorMap
  byteOrder :: ByteOrder

definition NewPixelReader :: "PixelFormat \<Rightarrow> ColorMap \<Rightarrow> PixelReader" where
  "NewPixelReader pf cm =
     \<lparr>pixelFormat = pf, colorMap = cm,
      byteOrder = (if BigEndian pf then binary_BigEndian else binary_LittleEndian)\<rparr>"

definition BytesPerPixel :: "PixelReader \<Rightarrow> nat" where
  "BytesPerPixel pr = unat (BPP (pixelFormat pr) div 8)"

text \<open>\<open>byteOrder.Uint16\<close> and \<open>byteOrder.Uint32\<close>; a slice too short panics.\<close>

definition Uint16 :: "ByteOrder \<Rightarrow> u8 list \<Rightarrow> u16 result" where
  "Uint16 order b =
     (if length b < 2 then Panic ''index out of range''
      else case order of
             binary_LittleEndian \<Rightarrow> Ok (ucast (b ! 0) OR push_bit 8 (ucast (b ! 1)))
           | binary_BigEndian \<Rightarrow> Ok (ucast (b ! 1) OR push_bit 8 (ucast (b ! 0))))"

definition Uint32 :: "ByteOrder \<Rightarrow> u8 list \<Rightarrow> u32 result" where
  "Uint32 order b =
     (if length b < 4 then Panic ''index out of range''
      else case order of
             binary_LittleEndian \<Rightarrow>
               Ok (ucast (b ! 0) OR push_bit 8 (ucast (b ! 1)) OR
                   push_bit 16 (ucast (b ! 2)) OR push_bit 24 (ucast (b ! 3)))
           | binary_BigEndian \<Rightarrow>
               Ok (ucast (b ! 3) OR push_bit 8 (ucast (b ! 2)) OR
                   push_bit 16 (ucast (b ! 1)) OR push_bit 24 (ucast (b ! 0))))"

definition bytesToPixel :: "PixelReader \<Rightarrow> u8 list \<Rightarrow> u32 result" where
  "bytesToPixel pr pixelBytes =
     (if BPP (pixelFormat pr) = 8 then
        (case pixelBytes of
           [] \<Rightarrow> Panic ''index out of range''
         | b # bs \<Rightarrow> Ok (ucast b))
      else if BPP (pixelFormat pr) = 16 then
        rbind (Uint16 (byteOrder pr) pixelBytes) (\<lambda>v. Ok (ucast v))
      else if BPP (pixelFormat pr) = 32 then
        Uint32 (byteOrder pr) pixelBytes
      else Ok 0)"

text \<open>
  \<open>pixelToColor\<close>. A shift count of 32 or more leaves 0, in Go as with \<open>drop_bit\<close>. The
  colour map is indexed with the 32-bit raw pixel itself.
\<close>

definition pixelToColor :: "PixelReader \<Rightarrow> u32 \<Rightarrow> Color result" where
  "pixelToColor pr rawPixel =
     (if TrueColor (pixelFormat pr) then
        Ok \<lparr>R = ucast (drop_bit (unat (RedShift (pixelFormat pr))) rawPixel AND
                       ucast (RedMax (pixelFormat pr))),
            G = ucast (drop_bit (unat (GreenShift (pixelFormat pr))) rawPixel AND
                       ucast (GreenMax (pixelFormat pr))),
            B = ucast (drop_bit (unat (BlueShift (pixelFormat pr))) rawPixel AND
                       ucast (BlueMax (pixelFormat pr)))\<rparr>
      else if unat rawPixel < ColorMapSize then Ok (colorMap pr (ucast rawPixel))
      else Panic ''index out of range'')"

definition ReadPixelColor :: "PixelReader \<Rightarrow> reader \<Rightarrow> (Color \<times> reader) result" where
  "ReadPixelColor pr r =
     rbind (ReadFull r (BytesPerPixel pr)) (\<lambda>(pixelBytes, r').
     rbind (bytesToPixel pr pixelBytes) (\<lambda>rawPixel.
     rbind (pixelToColor pr rawPixel) (\<lambda>color. Ok (color, r'))))"

definition readPixelColor :: "reader \<Rightarrow> PixelFormat \<Rightarrow> ColorMap \<Rightarrow> (Color \<times> reader) result" where
  "readPixelColor r pf cm = ReadPixelColor (NewPixelReader pf cm) r"

section \<open>The Hextile encoding\<close>

record HextileSubrectangle =
  sr_Color :: Color
  sr_X :: u8
  sr_Y :: u8
  sr_Width :: u8
  sr_Height :: u8

record HextileTile =
  tile_Width :: u16
  tile_Height :: u16
  Background :: Color
  Foreground :: Color
  Colors :: "Color list"
  Subrectangles :: "HextileSubrectangle list"

record HextileEncoding =
  Tiles :: "HextileTile list"

text \<open>The zero value of a tile, as \<open>make([]HextileTile, totalTiles)\<close> fills the slice.\<close>

definition HextileTile_zero :: HextileTile where
  "HextileTile_zero =
     \<lparr>tile_Width = 0, tile_Height = 0, Background = Color_zero, Foreground = Color_zero,
      Colors = [], Subrectangles = []\<rparr>"

definition HextileRaw :: u8 where
  "HextileRaw = 1"

definition HextileBackgroundSpecified :: u8 where
  "HextileBackgroundSpecified = 2"

definition HextileForegroundSpecified :: u8 where
  "HextileForegroundSpecified = 4"

definition HextileAnySubrects :: u8 where
  "HextileAnySubrects = 8"

definition HextileSubrectsColoured :: u8 where
  "HextileSubrectsColoured = 16"

definition HextileTileSize :: u16 where
  "HextileTileSize = 16"

definition MaxSubrectsPerTile :: nat where
  "MaxSubrectsPerTile = 255"

definition maxTiles :: nat where
  "maxTiles = 100000"

text \<open>
  The loop over the pixels of a raw tile, \<open>for i := 0; i < pixelCount; i++\<close>: \<open>n\<close> is the
  number of pixels still to read.
\<close>

fun read_raw_tile :: "'e ClientConn \<Rightarrow> nat \<Rightarrow> reader \<Rightarrow> (Color list \<times> reader) result" where
  "read_raw_tile c 0 r = Ok ([], r)"
| "read_raw_tile c (Suc n) r =
     rbind (wrap (encodingError ''HextileEncoding.Read'' ''failed to read raw tile pixel'')
              (readPixelColor r (PixelFormat c) (ColorMap c))) (\<lambda>(color, r1).
     rbind (read_raw_tile c n r1) (\<lambda>(colors, r2). Ok (color # colors, r2)))"

text \<open>One sub-rectangle of a tile: the body of the loop over \<open>numSubrects\<close>.\<close>

definition read_subrect ::
  "'e ClientConn \<Rightarrow> u8 \<Rightarrow> Color \<Rightarrow> u16 \<Rightarrow> u16 \<Rightarrow> reader \<Rightarrow> (HextileSubrectangle \<times> reader) result" where
  "read_subrect c subencoding foreground tileWidth tileHeight r =
     rbind (if subencoding AND HextileSubrectsColoured \<noteq> 0
            then wrap (encodingError ''HextileEncoding.Read'' ''failed to read subrectangle color'')
                   (readPixelColor r (PixelFormat c) (ColorMap c))
            else Ok (foreground, r)) (\<lambda>(color, r1).
     rbind (wrap (encodingError ''HextileEncoding.Read'' ''failed to read subrectangle position'')
              (read_u8 r1)) (\<lambda>(xyData, r2).
     rbind (wrap (encodingError ''HextileEncoding.Read'' ''failed to read subrectangle dimensions'')
              (read_u8 r2)) (\<lambda>(whData, r3).
     let subrect = \<lparr>sr_Color = color,
                    sr_X = drop_bit 4 xyData AND 15,
                    sr_Y = xyData AND 15,
                    sr_Width = (drop_bit 4 whData AND 15) + 1,
                    sr_Height = (whData AND 15) + 1\<rparr>;
         tileWidthU8 = (ucast tileWidth :: u8);
         tileHeightU8 = (ucast tileHeight :: u8) in
     if sr_X subrect \<ge> tileWidthU8 \<or> sr_Y subrect \<ge> tileHeightU8
     then Err (encodingError ''HextileEncoding.Read''
                 ''subrectangle position outside tile bounds'' None)
     else if (ucast (sr_X subrect) :: u16) + ucast (sr_Width subrect) > tileWidth \<or>
             (ucast (sr_Y subrect) :: u16) + ucast (sr_Height subrect) > tileHeight
     then Err (encodingError ''HextileEncoding.Read''
                 ''subrectangle extends outside tile bounds'' None)
     else Ok (subrect, r3))))"

fun read_subrects ::
  "'e ClientConn \<Rightarrow> u8 \<Rightarrow> Color \<Rightarrow> u16 \<Rightarrow> u16 \<Rightarrow> nat \<Rightarrow> reader \<Rightarrow>
   (HextileSubrectangle list \<times> reader) result" where
  "read_subrects c subencoding foreground tileWidth tileHeight 0 r = Ok ([], r)"
| "read_subrects c subencoding foreground tileWidth tileHeight (Suc n) r =
     rbind (read_subrect c subencoding foreground tileWidth tileHeight r) (\<lambda>(subrect, r1).
     rbind (read_subrects c subencoding foreground tileWidth tileHeight n r1) (\<lambda>(subrects, r2).
     Ok (subrect # subrects, r2)))"

text \<open>
  The decoding of one tile, from its subencoding byte on. \<open>background\<close> and \<open>foreground\<close>
  are the variables declared before the tile loops; the tile's new values of both are
  returned with it.
\<close>

definition read_tile ::
  "'e ClientConn \<Rightarrow> HextileTile \<Rightarrow> Color \<Rightarrow> Color \<Rightarrow> reader \<Rightarrow>
   (HextileTile \<times> Color \<times> Color \<times> reader) result" where
  "read_tile c tile background foreground r =
     rbind (wrap (encodingError ''HextileEncoding.Read'' ''failed to read tile subencoding'')
              (read_u8 r)) (\<lambda>(subencoding, r1).
     if subencoding AND HextileRaw \<noteq> 0 then
       rbind (read_raw_tile c (unat (tile_Width tile * tile_Height tile)) r1) (\<lambda>(colors, r2).
       Ok (tile\<lparr>Colors := colors\<rparr>, background, foreground, r2))
     else
       rbind (if subencoding AND HextileBackgroundSpecified \<noteq> 0
              then wrap (encodingError ''HextileEncoding.Read'' ''failed to read background color'')
                     (readPixelColor r1 (PixelFormat c) (ColorMap c))
              else Ok (background, r1)) (\<lambda>(background, r2).
       rbind (if subencoding AND HextileForegroundSpecified \<noteq> 0
              then wrap (encodingError ''HextileEncoding.Read'' ''failed to read foreground color'')
                     (readPixelColor r2 (PixelFormat c) (ColorMap c))
              else Ok (foreground, r2)) (\<lambda>(foreground, r3).
       let tile = tile\<lparr>Background := background, Foreground := foreground\<rparr> in
       if subencoding AND HextileAnySubrects \<noteq> 0 then
         rbind (wrap (encodingError ''HextileEncoding.Read'' ''failed to read subrectangle count'')
                  (read_u8 r3)) (\<lambda>(numSubrects, r4).
         if unat numSubrects > MaxSubrectsPerTile
         then Err (encodingError ''HextileEncoding.Read'' ''too many subrectangles in tile'' None)
         else
           rbind (read_subrects c subencoding foreground (tile_Width tile) (tile_Height tile)
                    (unat numSubrects) r4) (\<lambda>(subrects, r5).
           Ok (tile\<lparr>Subrectangles := subrects\<rparr>, background, foreground, r5)))
       else Ok (tile, background, foreground, r3))))"

text \<open>
  The body of the two tile loops at tile \<open>(tileX, tileY)\<close>. The state carried from tile
  to tile is the slice \<open>tiles\<close>, \<open>tileIndex\<close>, the running \<open>background\<close> and \<open>foreground\<close>, and
  the reader. \<open>&tiles[tileIndex]\<close> panics when the index is not below the slice's length.
\<close>

type_synonym hextile_state = "HextileTile list \<times> nat \<times> Color \<times> Color \<times> reader"

definition tile_step ::
  "'e ClientConn \<Rightarrow> 'e Rectangle \<Rightarrow> u16 \<times> u16 \<Rightarrow> hextile_state \<Rightarrow> hextile_state result" where
  "tile_step c rect tileYX st =
     (case (tileYX, st) of ((tileY, tileX), (tiles, tileIndex, background, foreground, r)) \<Rightarrow>
        let tileWidth = (if tileX * HextileTileSize + HextileTileSize > Width rect
                         then Width rect - tileX * HextileTileSize else HextileTileSize);
            tileHeight = (if tileY * HextileTileSize + HextileTileSize > Height rect
                          then Height rect - tileY * HextileTileSize else HextileTileSize) in
        if tileIndex \<ge> length tiles then Panic ''index out of range''
        else
          rbind (read_tile c ((tiles ! tileIndex)\<lparr>tile_Width := tileWidth, tile_Height := tileHeight\<rparr>)
                   background foreground r) (\<lambda>(tile, background, foreground, r').
          Ok (tiles[tileIndex := tile], tileIndex + 1, background, foreground, r')))"

text \<open>
  The loops \<open>for tileY := 0; tileY < tilesY; tileY++\<close> and, inside,
  \<open>for tileX := 0; tileX < tilesX; tileX++\<close> visit the tiles row by row; \<open>tile_loop\<close> runs the
  body over the positions still to visit, in that order, and stops at the first failure.
\<close>

fun tile_loop ::
  "'e ClientConn \<Rightarrow> 'e Rectangle \<Rightarrow> (u16 \<times> u16) list \<Rightarrow> hextile_state \<Rightarrow> hextile_state result" where
  "tile_loop c rect [] st = Ok st"
| "tile_loop c rect (p # ps) st = rbind (tile_step c rect p st) (tile_loop c rect ps)"

definition tile_positions :: "u16 \<Rightarrow> u16 \<Rightarrow> (u16 \<times> u16) list" where
  "tile_positions tilesX tilesY =
     List.product (map of_nat [0..<unat tilesY]) (map of_nat [0..<unat tilesX])"

definition HextileEncoding_Read ::
  "'e ClientConn \<Rightarrow> 'e Rectangle \<Rightarrow> reader \<Rightarrow> (HextileEncoding \<times> reader) result" where
  "HextileEncoding_Read c rect r =
     (case (if FrameBufferWidth c > 0 \<and> FrameBufferHeight c > 0
            then ValidateRectangle (X rect) (Y rect) (Width rect) (Height rect)
                   (FrameBufferWidth c) (FrameBufferHeight c)
            else None) of
        Some err \<Rightarrow>
          Err (encodingError ''HextileEncoding.Read'' ''invalid rectangle dimensions'' (Some err))
      | None \<Rightarrow>
          let tilesX = (Width rect + HextileTileSize - 1) div HextileTileSize;
              tilesY = (Height rect + HextileTileSize - 1) div HextileTileSize;
              totalTiles = unat (tilesX * tilesY) in
          if totalTiles > maxTiles
          then Err (encodingError ''HextileEncoding.Read'' ''too many tiles for rectangle'' None)
          else
            rbind (tile_loop c rect (tile_positions tilesX tilesY)
                     (replicate totalTiles HextileTile_zero, 0, Color_zero, Color_zero, r))
              (\<lambda>(tiles, tileIndex, background, foreground, r'). Ok (\<lparr>Tiles = tiles\<rparr>, r')))"

section \<open>Framebuffer updates\<close>

subsection \<open>\<open>InputValidator.ValidateEncodingType\<close>\<close>

definition ValidateEncodingType :: "i32 \<Rightarrow> error option" where
  "ValidateEncodingType encodingType =
     (if sint encodingType \<ge> 0 then
        (if sint encodingType \<in> {0, 1, 2, 4, 5, 15, 16} then None
         else if sint encodingType > 1000000
         then Some (validationError ''InputValidator.ValidateEncodingType''
                      ''encoding type too large: %d'' None)
         else None)
      else
        (if sint encodingType \<in> {-1, -2, -223, -224, -232, -239, -240, -247, -314} then None
         else if sint encodingType < -1000000
         then Some (validationError ''InputValidator.ValidateEncodingType''
                      ''pseudo-encoding type too negative: %d'' None)
         else None))"

subsection \<open>The \<open>Encoding\<close> and \<open>PseudoEncoding\<close> interfaces\<close>

text \<open>
  An \<open>Encoding\<close> value is of type \<open>'e\<close>; its methods come from a method table. \<open>Read\<close>
  decodes a rectangle from the reader and returns the decoded \<open>Encoding\<close> with the rest
  of the reader. \<open>Handle\<close> is \<open>None\<close> for a value that is not a \<open>PseudoEncoding\<close>, and
  otherwise the effect of its \<open>Handle\<close> on the connection (the error it may return is
  only logged by the caller).
\<close>

record 'e methods =
  Type :: "'e \<Rightarrow> i32"
  Read :: "'e \<Rightarrow> 'e ClientConn \<Rightarrow> 'e Rectangle \<Rightarrow> reader \<Rightarrow> ('e \<times> reader) result"
  Handle :: "'e \<Rightarrow> ('e ClientConn \<Rightarrow> 'e Rectangle \<Rightarrow> 'e ClientConn) option"

subsection \<open>\<open>FramebufferUpdateMessage.Read\<close>\<close>

definition MaxRectanglesPerUpdate :: u16 where
  "MaxRectanglesPerUpdate = 10000"

text \<open>
  The table from type codes to encodings: the connection's encodings in order, then Raw,
  the cursor and the desktop-size pseudo-encodings, a later entry replacing an earlier
  one with the same code.
\<close>

definition build_encMap :: "'e methods \<Rightarrow> 'e \<Rightarrow> 'e \<Rightarrow> 'e \<Rightarrow> 'e ClientConn \<Rightarrow> (i32 \<rightharpoonup> 'e)" where
  "build_encMap M rawEnc cursorPseudo desktopSizePseudo c =
     (let encMap = foldl (\<lambda>m enc. m(Type M enc \<mapsto> enc)) Map.empty (Encs c);
          encMap = encMap(Type M rawEnc \<mapsto> rawEnc);
          encMap = encMap(Type M cursorPseudo \<mapsto> cursorPseudo);
          encMap = encMap(Type M desktopSizePseudo \<mapsto> desktopSizePseudo)
      in encMap)"

text \<open>The five reads of a rectangle header: x, y, width, height and the encoding type.\<close>

definition read_rectangle_header :: "reader \<Rightarrow> ('e Rectangle \<times> i32 \<times> reader) result" where
  "read_rectangle_header r =
     rbind (wrap (networkError ''FramebufferUpdateMessage.Read'' ''failed to read rectangle header'')
              (read_u16 r)) (\<lambda>(x, r1).
     rbind (wrap (networkError ''FramebufferUpdateMessage.Read'' ''failed to read rectangle header'')
              (read_u16 r1)) (\<lambda>(y, r2).
     rbind (wrap (networkError ''FramebufferUpdateMessage.Read'' ''failed to read rectangle header'')
              (read_u16 r2)) (\<lambda>(width, r3).
     rbind (wrap (networkError ''FramebufferUpdateMessage.Read'' ''failed to read rectangle header'')
              (read_u16 r3)) (\<lambda>(height, r4).
     rbind (wrap (networkError ''FramebufferUpdateMessage.Read'' ''failed to read rectangle header'')
              (read_u32 r4)) (\<lambda>(encodingType, r5).
     Ok (\<lparr>X = x, Y = y, Width = width, Height = height, Enc = None\<rparr>, encodingType, r5))))))"

text \<open>
  A decoder invocation \<open>enc.Read(c, rect, r)\<close>, as observed from outside: the connection
  state and the rectangle it is handed, and the encoding type read from the wire.
\<close>

type_synonym 'e decoder_call = "'e ClientConn \<times> 'e Rectangle \<times> i32"

text \<open>
  The body of the loop over the rectangles. It returns the decoder invocation it made,
  if it got that far, and its outcome: the decoded rectangle, the connection as the
  pseudo-encoding's \<open>Handle\<close> left it, and the rest of the reader.
\<close>

definition read_rectangle ::
  "'e methods \<Rightarrow> (i32 \<rightharpoonup> 'e) \<Rightarrow> 'e ClientConn \<Rightarrow> reader \<Rightarrow>
   'e decoder_call option \<times> ('e Rectangle \<times> 'e ClientConn \<times> reader) result" where
  "read_rectangle M encMap c r =
     (case read_rectangle_header r of
        Err e \<Rightarrow> (None, Err e)
      | Panic p \<Rightarrow> (None, Panic p)
      | Ok (rect, encodingType, r') \<Rightarrow>
          (case ValidateEncodingType encodingType of
             Some err \<Rightarrow>
               (None, Err (protocolError ''FramebufferUpdateMessage.Read''
                             ''invalid encoding type for rectangle %d'' (Some err)))
           | None \<Rightarrow>
               let isPseudoEncoding = (sint encodingType < 0) in
               (case (if \<not> isPseudoEncoding
                      then ValidateRectangle (X rect) (Y rect) (Width rect) (Height rect)
                             (FrameBufferWidth c) (FrameBufferHeight c)
                      else None) of
                  Some err \<Rightarrow>
                    (None, Err (protocolError ''FramebufferUpdateMessage.Read''
                                  ''invalid rectangle %d'' (Some err)))
                | None \<Rightarrow>
                    (case encMap encodingType of
                       None \<Rightarrow>
                         (None, Err (unsupportedError ''FramebufferUpdateMessage.Read''
                                       ''unsupported encoding type: %d'' None))
                     | Some enc \<Rightarrow>
                         (Some (c, rect, encodingType),
                          rbind (wrap (encodingError ''FramebufferUpdateMessage.Read''
                                         ''failed to read rectangle encoding data'')
                                   (Read M enc c rect r')) (\<lambda>(decoded, r'').
                          let rect = rect\<lparr>Enc := Some decoded\<rparr> in
                          case Handle M decoded of
                            Some handle \<Rightarrow> Ok (rect, handle c rect, r'')
                          | None \<Rightarrow> Ok (rect, c, r'')))))))"

text \<open>
  The loop \<open>for i := uint16(0); i < numRects; i++\<close>; \<open>n\<close> is the number of rectangles still
  to read. The decoder invocations are collected in the order they are made.
\<close>

fun read_rectangles ::
  "'e methods \<Rightarrow> (i32 \<rightharpoonup> 'e) \<Rightarrow> nat \<Rightarrow> 'e ClientConn \<Rightarrow> reader \<Rightarrow>
   'e decoder_call list \<times> ('e Rectangle list \<times> 'e ClientConn \<times> reader) result" where
  "read_rectangles M encMap 0 c r = ([], Ok ([], c, r))"
| "read_rectangles M encMap (Suc n) c r =
     (case read_rectangle M encMap c r of
        (call, Err e) \<Rightarrow> (case call of None \<Rightarrow> [] | Some k \<Rightarrow> [k], Err e)
      | (call, Panic p) \<Rightarrow> (case call of None \<Rightarrow> [] | Some k \<Rightarrow> [k], Panic p)
      | (call, Ok (rect, c', r')) \<Rightarrow>
          (case read_rectangles M encMap n c' r' of
             (calls, rest) \<Rightarrow>
               ((case call of None \<Rightarrow> [] | Some k \<Rightarrow> [k]) @ calls,
                rbind rest (\<lambda>(rects, c'', r''). Ok (rect # rects, c'', r'')))))"

record 'e FramebufferUpdateMessage =
  Rectangles :: "'e Rectangle list"

definition FramebufferUpdateMessage_Read ::
  "'e methods \<Rightarrow> 'e \<Rightarrow> 'e \<Rightarrow> 'e \<Rightarrow> 'e ClientConn \<Rightarrow> reader \<Rightarrow>
   'e decoder_call list \<times> ('e FramebufferUpdateMessage \<times> 'e ClientConn \<times> reader) result" where
  "FramebufferUpdateMessage_Read M rawEnc cursorPseudo desktopSizePseudo c r =
     (case wrap (networkError ''FramebufferUpdateMessage.Read'' ''failed to read padding'')
             (ReadFull r 1) of
        Err e \<Rightarrow> ([], Err e)
      | Panic p \<Rightarrow> ([], Panic p)
      | Ok (padding, r1) \<Rightarrow>
          (case wrap (networkError ''FramebufferUpdateMessage.Read''
                        ''failed to read number of rectangles'') (read_u16 r1) of
             Err e \<Rightarrow> ([], Err e)
           | Panic p \<Rightarrow> ([], Panic p)
           | Ok (numRects, r2) \<Rightarrow>
               if numRects > MaxRectanglesPerUpdate
               then ([], Err (protocolError ''FramebufferUpdateMessage.Read''
                                ''too many rectangles in update: %d (max %d)'' None))
               else
                 (case read_rectangles M
                         (build_encMap M rawEnc cursorPseudo desktopSizePseudo c)
                         (unat numRects) c r2 of
                    (calls, rest) \<Rightarrow>
                      (calls, rbind rest (\<lambda>(rects, c', r').
                                Ok (\<lparr>Rectangles = rects\<rparr>, c', r'))))))"

section \<open>Text: UTF-8 strings, validation and sanitization\<close>

text \<open>
  A Go string is its bytes. Ranging over a string, converting it to \<open>[]rune\<close> and
  \<open>utf8.ValidString\<close> decode it as UTF-8; these come from the Go library and follow the
  UTF-8 encoding form (RFC 3629): an ill-formed byte decodes to \<open>RuneError\<close>, one byte
  wide. A rune is its code point.
\<close>

type_synonym rune = nat

definition RuneError :: rune where
  "RuneError = 65533"

definition continuation :: "u8 \<Rightarrow> bool" where
  "continuation b = (128 \<le> b \<and> b \<le> 191)"

text \<open>\<open>utf8.DecodeRuneInString\<close>: the first rune of the string and its width in bytes.\<close>

definition DecodeRune :: "u8 list \<Rightarrow> rune \<times> nat" where
  "DecodeRune s =
     (case s of
        [] \<Rightarrow> (RuneError, 0)
      | b0 # s1 \<Rightarrow>
          if b0 < 128 then (unat b0, 1)
          else if 194 \<le> b0 \<and> b0 \<le> 223 then
            (case s1 of
               b1 # s2 \<Rightarrow>
                 if continuation b1
                 then (unat (b0 AND 31) * 64 + unat (b1 AND 63), 2)
                 else (RuneError, 1)
             | [] \<Rightarrow> (RuneError, 1))
          else if 224 \<le> b0 \<and> b0 \<le> 239 then
            (case s1 of
               b1 # b2 # s3 \<Rightarrow>
                 if (if b0 = 224 then 160 \<le> b1 \<and> b1 \<le> 191
                     else if b0 = 237 then 128 \<le> b1 \<and> b1 \<le> 159
                     else continuation b1) \<and> continuation b2
                 then (unat (b0 AND 15) * 4096 + unat (b1 AND 63) * 64 + unat (b2 AND 63), 3)
                 else (RuneError, 1)
             | _ \<Rightarrow> (RuneError, 1))
          else if 240 \<le> b0 \<and> b0 \<le> 244 then
            (case s1 of
               b1 # b2 # b3 # s4 \<Rightarrow>
                 if (if b0 = 240 then 144 \<le> b1 \<and> b1 \<le> 191
                     else if b0 = 244 then 128 \<le> b1 \<and> b1 \<le> 143
                     else continuation b1) \<and> continuation b2 \<and> continuation b3
                 then (unat (b0 AND 7) * 262144 + unat (b1 AND 63) * 4096 +
                       unat (b2 AND 63) * 64 + unat (b3 AND 63), 4)
                 else (RuneError, 1)
             | _ \<Rightarrow> (RuneError, 1))
          else (RuneError, 1))"

text \<open>
  The runes of a string, as \<open>for _, char := range text\<close> and \<open>[]rune(text)\<close> produce them.
  \<open>n\<close> bounds the number of runes; the length of the string is enough.
\<close>

fun runes_upto :: "nat \<Rightarrow> u8 list \<Rightarrow> rune list" where
  "runes_upto 0 s = []"
| "runes_upto (Suc n) s =
     (if s = [] then []
      else case DecodeRune s of (r, sz) \<Rightarrow> r # runes_upto n (drop sz s))"

definition runes :: "u8 list \<Rightarrow> rune list" where
  "runes s = runes_upto (length s) s"

text \<open>\<open>utf8.ValidString\<close>: no position decodes to an ill-formed byte.\<close>

fun valid_upto :: "nat \<Rightarrow> u8 list \<Rightarrow> bool" where
  "valid_upto 0 s = (s = [])"
| "valid_upto (Suc n) s =
     (if s = [] then True
      else case DecodeRune s of
             (r, sz) \<Rightarrow> \<not> (r = RuneError \<and> sz = 1) \<and> valid_upto n (drop sz s))"

definition ValidString :: "u8 list \<Rightarrow> bool" where
  "ValidString s = valid_upto (length s) s"

text \<open>
  \<open>string(runes)\<close>: each rune in UTF-8; a surrogate or a value past U+10FFFF is encoded
  as \<open>RuneError\<close>.
\<close>

definition EncodeRune :: "rune \<Rightarrow> u8 list" where
  "EncodeRune r =
     (if r < 128 then [of_nat r]
      else if r < 2048 then [of_nat (192 + r div 64), of_nat (128 + r mod 64)]
      else if (55296 \<le> r \<and> r \<le> 57343) \<or> 1114111 < r then [239, 191, 189]
      else if r < 65536
      then [of_nat (224 + r div 4096), of_nat (128 + r div 64 mod 64), of_nat (128 + r mod 64)]
      else [of_nat (240 + r div 262144), of_nat (128 + r div 4096 mod 64),
            of_nat (128 + r div 64 mod 64), of_nat (128 + r mod 64)])"

definition string_of_runes :: "rune list \<Rightarrow> u8 list" where
  "string_of_runes rs = concat (map EncodeRune rs)"

text \<open>
  \<open>unicode.IsPrint\<close>. Up to U+00FF it reads the library's table of Latin-1 properties:
  printable are the space, the graphic ASCII characters and U+00A1 to U+00FF without the
  soft hyphen U+00AD. Beyond, it consults the Unicode range tables, which stay a
  parameter here, \<open>isPrintWide\<close>.
\<close>

definition IsPrint :: "(rune \<Rightarrow> bool) \<Rightarrow> rune \<Rightarrow> bool" where
  "IsPrint isPrintWide r =
     (if r \<le> 255 then (32 \<le> r \<and> r \<le> 126) \<or> (161 \<le> r \<and> r \<noteq> 173)
      else isPrintWide r)"

subsection \<open>\<open>InputValidator.ValidateTextData\<close>, \<open>SanitizeText\<close>, \<open>ValidateMessageLength\<close>\<close>

definition ValidateTextData :: "u8 list \<Rightarrow> nat \<Rightarrow> error option" where
  "ValidateTextData text maxLength =
     (if length text > maxLength
      then Some (validationError ''InputValidator.ValidateTextData''
                   ''text length %d exceeds maximum %d'' None)
      else if \<not> ValidString text
      then Some (validationError ''InputValidator.ValidateTextData''
                   ''text contains invalid UTF-8 sequences'' None)
      else if list_ex (\<lambda>char. char < 32 \<and> char \<noteq> 9 \<and> char \<noteq> 10 \<and> char \<noteq> 13) (runes text)
      then Some (validationError ''InputValidator.ValidateTextData''
                   ''text contains invalid control character at position %d'' None)
      else None)"

definition sanitize_rune :: "(rune \<Rightarrow> bool) \<Rightarrow> rune \<Rightarrow> rune" where
  "sanitize_rune isPrintWide r =
     (if r = 9 \<or> r = 10 \<or> r = 13 then r
      else if r < 32 then 32
      else if IsPrint isPrintWide r then r
      else RuneError)"

definition SanitizeText :: "(rune \<Rightarrow> bool) \<Rightarrow> u8 list \<Rightarrow> u8 list" where
  "SanitizeText isPrintWide text =
     (if text = [] then text
      else string_of_runes (map (sanitize_rune isPrintWide) (runes text)))"

definition ValidateMessageLength :: "u32 \<Rightarrow> u32 \<Rightarrow> error option" where
  "ValidateMessageLength len maxLength =
     (if len = 0
      then Some (validationError ''InputValidator.ValidateMessageLength''
                   ''message length cannot be zero'' None)
      else if len > maxLength
      then Some (validationError ''InputValidator.ValidateMessageLength''
                   ''message length %d exceeds maximum %d'' None)
      else None)"

subsection \<open>\<open>InputValidator.ValidateFramebufferDimensions\<close>\<close>

definition ValidateFramebufferDimensions :: "u16 \<Rightarrow> u16 \<Rightarrow> error option" where
  "ValidateFramebufferDimensions width height =
     (if width = 0 \<or> height = 0
      then Some (validationError ''InputValidator.ValidateFramebufferDimensions''
                   ''framebuffer dimensions cannot be zero'' None)
      else if width > 32768 \<or> height > 32768
      then Some (validationError ''InputValidator.ValidateFramebufferDimensions''
                   ''framebuffer dimensions too large: %dx%d (max %d)'' None)
      else if unat width * unat height > 1024 * 1024 * 1024
      then Some (validationError ''InputValidator.ValidateFramebufferDimensions''
                   ''framebuffer area too large: %d pixels (max %d)'' None)
      else None)"

section \<open>Client messages\<close>

text \<open>
  What \<open>c.c.Write(data)\<close> under the context does is decided outside the engine: \<open>None\<close> when
  all of \<open>data\<close> is sent and no error returned, \<open>Some (k, e)\<close> when the error \<open>e\<close> is
  returned after \<open>k\<close> bytes went out.
\<close>

type_synonym write_outcome = "(nat \<times> error) option"

definition writeWithContext ::
  "write_outcome \<Rightarrow> 'e ClientConn \<Rightarrow> u8 list \<Rightarrow> 'e ClientConn \<times> error option" where
  "writeWithContext w c data =
     (case w of
        None \<Rightarrow> (c\<lparr>written := written c @ data\<rparr>, None)
      | Some (k, e) \<Rightarrow> (c\<lparr>written := written c @ take k data\<rparr>, Some e))"

text \<open>\<open>copy(dst, src)\<close>: the first \<open>min (len dst) (len src)\<close> elements of \<open>dst\<close> are replaced.\<close>

definition copy :: "u8 list \<Rightarrow> u8 list \<Rightarrow> u8 list" where
  "copy dst src = take (length dst) src @ drop (length src) dst"

subsection \<open>\<open>ClientConn.SetPixelFormat\<close>\<close>

text \<open>
  The method returns the connection as it leaves it, with \<open>Ok ()\<close> for a nil error.
\<close>

definition SetPixelFormat ::
  "write_outcome \<Rightarrow> 'e ClientConn \<Rightarrow> PixelFormat option \<Rightarrow> 'e ClientConn \<times> unit result" where
  "SetPixelFormat w c format =
     (case ValidatePixelFormat format of
        Some err \<Rightarrow> (c, Err (validationError ''SetPixelFormat'' ''invalid pixel format'' (Some err)))
      | None \<Rightarrow>
          let keyEvent = replicate 20 (0 :: u8);
              keyEvent = keyEvent[0 := 0] in
          (case wrap (encodingError ''SetPixelFormat'' ''failed to encode pixel format'')
                  (writePixelFormat (the format)) of
             Err e \<Rightarrow> (c, Err e)
           | Panic p \<Rightarrow> (c, Panic p)
           | Ok pfBytes \<Rightarrow>
               let keyEvent = take 4 keyEvent @ copy (drop 4 keyEvent) pfBytes in
               (case writeWithContext w c keyEvent of
                  (c', Some err) \<Rightarrow>
                    (c', Err (networkError ''SetPixelFormat''
                                ''failed to send pixel format message'' (Some err)))
                | (c', None) \<Rightarrow>
                    let newColorMap = (\<lambda>i. Color_zero) in
                    (c'\<lparr>ColorMap := newColorMap\<rparr>, Ok ()))))"

subsection \<open>\<open>ClientConn.CutText\<close>\<close>

definition MaxClipboardLength :: nat where
  "MaxClipboardLength = 1024 * 1024"

definition Latin1MaxCodePoint :: rune where
  "Latin1MaxCodePoint = 255"

text \<open>
  The loop over the characters of the text: a character beyond Latin-1 ends the call
  with a validation error, any other is appended to the buffer as one byte.
\<close>

fun write_chars :: "rune list \<Rightarrow> u8 list \<Rightarrow> u8 list result" where
  "write_chars [] buf = Ok buf"
| "write_chars (char # chars) buf =
     (if char > Latin1MaxCodePoint
      then Err (validationError ''CutText'' ''character '%c' is not valid Latin-1'' None)
      else write_chars chars (buf @ [of_nat char]))"

definition CutText ::
  "(rune \<Rightarrow> bool) \<Rightarrow> (nat \<Rightarrow> nat) \<Rightarrow> write_outcome \<Rightarrow> 'e ClientConn \<Rightarrow> u8 list \<Rightarrow>
   'e ClientConn \<times> unit result" where
  "CutText isPrintWide bufcap w c text =
     (case ValidateTextData text MaxClipboardLength of
        Some err \<Rightarrow> (c, Err (validationError ''CutText'' ''invalid clipboard text'' (Some err)))
      | None \<Rightarrow>
          let sanitizedText = SanitizeText isPrintWide text;
              text = (if sanitizedText \<noteq> text then sanitizedText else text);
              buf = [6, 0, 0, 0] @ put_u32 (of_nat (length text)) in
          (case write_chars (runes text) buf of
             Err e \<Rightarrow> (c, Err e)
           | Panic p \<Rightarrow> (c, Panic p)
           | Ok buf \<Rightarrow>
               let dataLength = 8 + length text in
               (case Bytes_upto bufcap buf dataLength of
                  Err e \<Rightarrow> (c, Err e)
                | Panic p \<Rightarrow> (c, Panic p)
                | Ok frame \<Rightarrow>
                    (case writeWithContext w c frame of
                       (c', Some err) \<Rightarrow>
                         (c', Err (networkError ''CutText''
                                     ''failed to send cut text message'' (Some err)))
                     | (c', None) \<Rightarrow> (c', Ok ())))))"

section \<open>The handshake: ServerInit\<close>

text \<open>
  The part of \<open>handshakeWithContext\<close> from \<open>7.3.2 ServerInit\<close> on: it reads the framebuffer
  size, the pixel format and the desktop name from the server's stream and stores them.
  It returns the connection and the rest of the stream, or the error.
\<close>

definition maxDesktopNameLength :: u32 where
  "maxDesktopNameLength = 1024 * 1024"

definition handshake_ServerInit ::
  "(rune \<Rightarrow> bool) \<Rightarrow> 'e ClientConn \<Rightarrow> reader \<Rightarrow> ('e ClientConn \<times> reader) result" where
  "handshake_ServerInit isPrintWide c r =
     rbind (wrap (networkError ''handshake'' ''failed to read framebuffer width'')
              (read_u16 r)) (\<lambda>(width, r1).
     rbind (wrap (networkError ''handshake'' ''failed to read framebuffer height'')
              (read_u16 r1)) (\<lambda>(height, r2).
     case ValidateFramebufferDimensions width height of
       Some err \<Rightarrow>
         Err (protocolError ''handshake'' ''server sent invalid framebuffer dimensions'' (Some err))
     | None \<Rightarrow>
     rbind (wrap (protocolError ''handshake'' ''failed to read pixel format'')
              (readPixelFormat r2 PixelFormat_zero)) (\<lambda>(pixelFormat, r3).
     let c = c\<lparr>FrameBufferWidth := width, FrameBufferHeight := height,
               PixelFormat := pixelFormat\<rparr> in
     case ValidatePixelFormat (Some (PixelFormat c)) of
       Some err \<Rightarrow>
         Err (protocolError ''handshake'' ''server sent invalid pixel format'' (Some err))
     | None \<Rightarrow>
     rbind (wrap (networkError ''handshake'' ''failed to read desktop name length'')
              (read_u32 r3)) (\<lambda>(nameLength, r4).
     case ValidateMessageLength nameLength maxDesktopNameLength of
       Some err \<Rightarrow>
         Err (protocolError ''handshake'' ''server sent invalid desktop name length'' (Some err))
     | None \<Rightarrow>
     rbind (wrap (networkError ''handshake'' ''failed to read desktop name'')
              (ReadFull r4 (unat nameLength))) (\<lambda>(nameBytes, r5).
     let desktopNameStr = nameBytes;
         desktopNameStr =
           (case ValidateTextData desktopNameStr (unat maxDesktopNameLength) of
              Some err \<Rightarrow> SanitizeText isPrintWide desktopNameStr
            | None \<Rightarrow> desktopNameStr) in
     Ok (c\<lparr>DesktopName := desktopNameStr\<rparr>, r5))))))"

text \<open>
  The phases before ServerInit (ProtocolVersion, the security handshake through the
  pluggable \<open>ClientAuth\<close>, SecurityResult and ClientInit) are the parameter \<open>earlier\<close>: from
  the connection and the server's stream to the connection and the rest of the stream,
  or to the error with which the handshake returns.
\<close>

definition handshakeWithContext ::
  "('e ClientConn \<Rightarrow> reader \<Rightarrow> ('e ClientConn \<times> reader) result) \<Rightarrow> (rune \<Rightarrow> bool) \<Rightarrow>
   'e ClientConn \<Rightarrow> reader \<Rightarrow> ('e ClientConn \<times> reader) result" where
  "handshakeWithContext earlier isPrintWide c r =
     rbind (earlier c r) (\<lambda>(c1, r1). handshake_ServerInit isPrintWide c1 r1)"

text \<open>
  \<open>ClientWithContext\<close>: a failed handshake closes the connection and returns the error;
  after a successful one the message loop is started and the session is running.
\<close>

datatype 'e session = Running "'e ClientConn" reader | Closed error | Crashed string

definition ClientWithContext ::
  "('e ClientConn \<Rightarrow> reader \<Rightarrow> ('e ClientConn \<times> reader) result) \<Rightarrow> (rune \<Rightarrow> bool) \<Rightarrow>
   'e ClientConn \<Rightarrow> reader \<Rightarrow> 'e session" where
  "ClientWithContext earlier isPrintWide conn r =
     (case handshakeWithContext earlier isPrintWide conn r of
        Err err \<Rightarrow> Closed err
      | Panic p \<Rightarrow> Crashed p
      | Ok (conn', r') \<Rightarrow> Running conn' r')"

section \<open>The VNC password challenge\<close>

definition VNCChallengeSize :: nat where
  "VNCChallengeSize = 16"

definition DESKeySize :: nat where
  "DESKeySize = 8"

definition VNCMaxPasswordLength :: nat where
  "VNCMaxPasswordLength = 8"

text \<open>The lookup table of \<open>reverseBitsSecure\<close>, a \<open>[256]byte\<close> indexed by a byte.\<close>

definition reverseLookup :: "u8 list" where
  "reverseLookup =
     [
      0x00, 0x80, 0x40, 0xC0, 0x20, 0xA0, 0x60, 0xE0,
      0x10, 0x90, 0x50, 0xD0, 0x30, 0xB0, 0x70, 0xF0,
      0x08, 0x88, 0x48, 0xC8, 0x28, 0xA8, 0x68, 0xE8,
      0x18, 0x98, 0x58, 0xD8, 0x38, 0xB8, 0x78, 0xF8,
      0x04, 0x84, 0x44, 0xC4, 0x24, 0xA4, 0x64, 0xE4,
      0x14, 0x94, 0x54, 0xD4, 0x34, 0xB4, 0x74, 0xF4,
      0x0C, 0x8C, 0x4C, 0xCC, 0x2C, 0xAC, 0x6C, 0xEC,
      0x1C, 0x9C, 0x5C, 0xDC, 0x3C, 0xBC, 0x7C, 0xFC,
      0x02, 0x82, 0x42, 0xC2, 0x22, 0xA2, 0x62, 0xE2,
      0x12, 0x92, 0x52, 0xD2, 0x32, 0xB2, 0x72, 0xF2,
      0x0A, 0x8A, 0x4A, 0xCA, 0x2A, 0xAA, 0x6A, 0xEA,
      0x1A, 0x9A, 0x5A, 0xDA, 0x3A, 0xBA, 0x7A, 0xFA,
      0x06, 0x86, 0x46, 0xC6, 0x26, 0xA6, 0x66, 0xE6,
      0x16, 0x96, 0x56, 0xD6, 0x36, 0xB6, 0x76, 0xF6,
      0x0E, 0x8E, 0x4E, 0xCE, 0x2E, 0xAE, 0x6E, 0xEE,
      0x1E, 0x9E, 0x5E, 0xDE, 0x3E, 0xBE, 0x7E, 0xFE,
      0x01, 0x81, 0x41, 0xC1, 0x21, 0xA1, 0x61, 0xE1,
      0x11, 0x91, 0x51, 0xD1, 0x31, 0xB1, 0x71, 0xF1,
      0x09, 0x89, 0x49, 0xC9, 0x29, 0xA9, 0x69, 0xE9,
      0x19, 0x99, 0x59, 0xD9, 0x39, 0xB9, 0x79, 0xF9,
      0x05, 0x85, 0x45, 0xC5, 0x25, 0xA5, 0x65, 0xE5,
      0x15, 0x95, 0x55, 0xD5, 0x35, 0xB5, 0x75, 0xF5,
      0x0D, 0x8D, 0x4D, 0xCD, 0x2D, 0xAD, 0x6D, 0xED,
      0x1D, 0x9D, 0x5D, 0xDD, 0x3D, 0xBD, 0x7D, 0xFD,
      0x03, 0x83, 0x43, 0xC3, 0x23, 0xA3, 0x63, 0xE3,
      0x13, 0x93, 0x53, 0xD3, 0x33, 0xB3, 0x73, 0xF3,
      0x0B, 0x8B, 0x4B, 0xCB, 0x2B, 0xAB, 0x6B, 0xEB,
      0x1B, 0x9B, 0x5B, 0xDB, 0x3B, 0xBB, 0x7B, 0xFB,
      0x07, 0x87, 0x47, 0xC7, 0x27, 0xA7, 0x67, 0xE7,
      0x17, 0x97, 0x57, 0xD7, 0x37, 0xB7, 0x77, 0xF7,
      0x0F, 0x8F, 0x4F, 0xCF, 0x2F, 0xAF, 0x6F, 0xEF,
      0x1F, 0x9F, 0x5F, 0xDF, 0x3F, 0xBF, 0x7F, 0xFF
     ]"

definition reverseBitsSecure :: "u8 \<Rightarrow> u8" where
  "reverseBitsSecure b = reverseLookup ! unat b"

text \<open>
  The DES block cipher is Go's \<open>crypto/des\<close>, not part of the repository. \<open>des.NewCipher\<close>
  refuses a key that is not 8 bytes long; \<open>block.Encrypt(dst, src)\<close> reads the key and the
  8-byte block \<open>src\<close> as big-endian 64-bit values and writes the 64-bit result to \<open>dst\<close> the
  same way. The block function itself, \<open>des\<close>, from key and block to block, is a parameter.
\<close>

definition be_u64 :: "u8 list \<Rightarrow> 64 word" where
  "be_u64 bs = foldl (\<lambda>acc b. push_bit 8 acc OR ucast b) 0 (take 8 bs)"

definition put_u64 :: "64 word \<Rightarrow> u8 list" where
  "put_u64 v = map (\<lambda>i. ucast (drop_bit (8 * (7 - i)) v)) [0..<8]"

definition Encrypt :: "(64 word \<Rightarrow> 64 word \<Rightarrow> 64 word) \<Rightarrow> u8 list \<Rightarrow> u8 list \<Rightarrow> u8 list" where
  "Encrypt des key src = put_u64 (des (be_u64 key) (be_u64 src))"

text \<open>
  \<open>EncryptVNCChallenge\<close>. The password is the bytes of the Go string. The deferred
  clearing of the key and password copies happens after the result is built and does
  not touch it.
\<close>

definition EncryptVNCChallenge ::
  "(64 word \<Rightarrow> 64 word \<Rightarrow> 64 word) \<Rightarrow> u8 list \<Rightarrow> u8 list \<Rightarrow> u8 list result" where
  "EncryptVNCChallenge des password challenge =
     (if length challenge \<noteq> VNCChallengeSize
      then Err (validationError ''SecureDESCipher.EncryptVNCChallenge''
                  ''challenge must be exactly %d bytes'' None)
      else
        let passwordBytes = password;
            keyLen = length passwordBytes;
            keyLen = (if keyLen > VNCMaxPasswordLength then VNCMaxPasswordLength else keyLen);
            keyBytes = map (\<lambda>i. if i < keyLen then reverseBitsSecure (passwordBytes ! i) else 0)
                         [0..<DESKeySize] in
        if length keyBytes \<noteq> 8
        then Err (authenticationError ''SecureDESCipher.EncryptVNCChallenge''
                    ''failed to create DES cipher'' (Some KeySizeError))
        else if length challenge \<noteq> VNCChallengeSize
        then Err (authenticationError ''SecureDESCipher.EncryptVNCChallenge''
                    ''invalid challenge size: expected %d, got %d'' None)
        else
          let result = replicate VNCChallengeSize (0 :: u8) in
          if DESKeySize > length result \<or> DESKeySize > length challenge
          then Err (authenticationError ''SecureDESCipher.EncryptVNCChallenge''
                      ''invalid DES key size for encryption'' None)
          else
            let result = Encrypt des keyBytes (take DESKeySize challenge) @ drop DESKeySize result in
            if VNCChallengeSize > length result \<or> VNCChallengeSize > length challenge \<or>
               DESKeySize \<ge> VNCChallengeSize
            then Err (authenticationError ''SecureDESCipher.EncryptVNCChallenge''
                        ''invalid challenge size for second DES block'' None)
            else
              let result = take DESKeySize result @
                           Encrypt des keyBytes (take (VNCChallengeSize - DESKeySize)
                                                   (drop DESKeySize challenge)) @
                           drop VNCChallengeSize result
              in Ok result)"

section \<open>Concrete formats, connections and rectangles\<close>

text \<open>The presets \<open>PixelFormat32BitRGBA\<close> and \<open>PixelFormat8BitIndexed\<close> of the package.\<close>

definition PixelFormat32BitRGBA :: PixelFormat where
  "PixelFormat32BitRGBA =
     \<lparr>BPP = 32, Depth = 24, BigEndian = False, TrueColor = True,
      RedMax = 255, GreenMax = 255, BlueMax = 255,
      RedShift = 16, GreenShift = 8, BlueShift = 0\<rparr>"

definition PixelFormat8BitIndexed :: PixelFormat where
  "PixelFormat8BitIndexed =
     \<lparr>BPP = 8, Depth = 8, BigEndian = False, TrueColor = False,
      RedMax = 0, GreenMax = 0, BlueMax = 0,
      RedShift = 0, GreenShift = 0, BlueShift = 0\<rparr>"

text \<open>
  An 8-bit true-colour layout of one red bit (bit 7), three green bits (bits 4 to 6)
  and four blue bits (bits 0 to 3).
\<close>

definition pf_r1g3b4 :: PixelFormat where
  "pf_r1g3b4 =
     \<lparr>BPP = 8, Depth = 8, BigEndian = False, TrueColor = True,
      RedMax = 1, GreenMax = 7, BlueMax = 15,
      RedShift = 7, GreenShift = 4, BlueShift = 0\<rparr>"

text \<open>An indexed 8-bit format whose colour fields still hold a BGR233 layout.\<close>

definition pf_indexed_bgr233 :: PixelFormat where
  "pf_indexed_bgr233 =
     \<lparr>BPP = 8, Depth = 8, BigEndian = False, TrueColor = False,
      RedMax = 7, GreenMax = 7, BlueMax = 3,
      RedShift = 0, GreenShift = 3, BlueShift = 6\<rparr>"

text \<open>A 16-bit big-endian colour-mapped format.\<close>

definition pf_indexed16 :: PixelFormat where
  "pf_indexed16 =
     \<lparr>BPP = 16, Depth = 16, BigEndian = True, TrueColor = False,
      RedMax = 0, GreenMax = 0, BlueMax = 0,
      RedShift = 0, GreenShift = 0, BlueShift = 0\<rparr>"

definition ColorMap_zero :: ColorMap where
  "ColorMap_zero = (\<lambda>i. Color_zero)"

text \<open>
  A session with a framebuffer of the given size, the 32-bit format and no extra
  encodings. Encoding values are represented by their type codes.
\<close>

definition conn_of :: "u16 \<Rightarrow> u16 \<Rightarrow> i32 ClientConn" where
  "conn_of w h =
     \<lparr>ColorMap = ColorMap_zero, Encs = [], FrameBufferWidth = w, FrameBufferHeight = h,
      DesktopName = [], PixelFormat = PixelFormat32BitRGBA, written = []\<rparr>"

definition rect_of :: "u16 \<Rightarrow> u16 \<Rightarrow> u16 \<Rightarrow> u16 \<Rightarrow> i32 Rectangle" where
  "rect_of x y w h = \<lparr>X = x, Y = y, Width = w, Height = h, Enc = None\<rparr>"

definition red :: Color where
  "red = \<lparr>R = 255, G = 0, B = 0\<rparr>"

definition blue :: Color where
  "blue = \<lparr>R = 0, G = 0, B = 255\<rparr>"






text \<open>
  A ServerInit message: 800 by 600, the 32-bit true-colour format and a desktop-name
  length of 0.
\<close>

definition server_init_empty_name :: reader where
  "server_init_empty_name =
     [3, 32, 2, 88,
      32, 24, 0, 1, 0, 255, 0, 255, 0, 255, 16, 8, 0, 0, 0, 0,
      0, 0, 0, 0]"

text \<open>Earlier handshake phases that consume nothing and leave the connection as it is.\<close>

definition no_earlier_phases :: "i32 ClientConn \<Rightarrow> reader \<Rightarrow> (i32 ClientConn \<times> reader) result" where
  "no_earlier_phases c r = Ok (c, r)"

text \<open>
  The password "123456", a longer password with the same first eight bytes as
  "12345678", the challenge of the bytes 0 to 15, and a stand-in for the DES block
  function.
\<close>

definition password_123456 :: "u8 list" where
  "password_123456 = [49, 50, 51, 52, 53, 54]"

definition password_long :: "u8 list" where
  "password_long = [49, 50, 51, 52, 53, 54, 55, 56, 57, 48]"

definition challenge_0_15 :: "u8 list" where
  "challenge_0_15 = [0, 1, 2, 3, 4, 5, 6, 7, 8, 9, 10, 11, 12, 13, 14, 15]"

definition xor_block :: "64 word \<Rightarrow> 64 word \<Rightarrow> 64 word" where
  "xor_block key block = key XOR block"

section \<open>Notions used in the statements\<close>

text \<open>
  A pixel format as it comes back from the wire when it is not true-colour: the three
  maxima and the three shifts are zero.
\<close>

definition clear_colour_fields :: "PixelFormat \<Rightarrow> PixelFormat" where
  "clear_colour_fields p =
     p\<lparr>RedMax := 0, GreenMax := 0, BlueMax := 0, RedShift := 0, GreenShift := 0, BlueShift := 0\<rparr>"

text \<open>
  The rectangle is non-empty and lies inside the connection's framebuffer; the sums are
  taken in the natural numbers, so they do not wrap around.
\<close>

definition within_framebuffer :: "'e ClientConn \<Rightarrow> 'e Rectangle \<Rightarrow> bool" where
  "within_framebuffer c rect =
     (Width rect \<noteq> 0 \<and> Height rect \<noteq> 0 \<and>
      unat (X rect) + unat (Width rect) \<le> unat (FrameBufferWidth c) \<and>
      unat (Y rect) + unat (Height rect) \<le> unat (FrameBufferHeight c))"

text \<open>
  The key as the specification describes it: the first eight bytes of the password,
  padded with zeros to eight, each with its bit order reversed.
\<close>

definition vnc_key :: "u8 list \<Rightarrow> u8 list" where
  "vnc_key password = map word_reverse (take 8 (password @ replicate 8 0))"





section \<open>Auxiliary facts\<close>

lemma rbind_Ok_iff: "rbind m f = Ok y \<longleftrightarrow> (\<exists>x. m = Ok x \<and> f x = Ok y)"
  by (cases m) (simp_all add: rbind_def)



lemma be_u16_put: "be_u16 (ucast (drop_bit 8 v)) (ucast v) = v"
  unfolding be_u16_def
  by (rule bit_word_eqI) (auto simp: bit_simps)

lemma Bytes_upto_pad:
  "length w \<le> n \<Longrightarrow> n \<le> Buffer_cap bufcap (length w) \<Longrightarrow>
   Bytes_upto bufcap w n = Ok (w @ replicate (n - length w) 0)"
  by (simp add: Bytes_upto_def min_def)

lemma ReadFull_enough: "n \<le> length r \<Longrightarrow> ReadFull r n = Ok (take n r, drop n r)"
  by (simp add: ReadFull_def)

lemma read_u8_enough: "1 \<le> length r \<Longrightarrow> read_u8 r = Ok (hd r, drop 1 r)"
  by (simp add: read_u8_def ReadFull_def hd_take)

lemma read_u16_enough: "2 \<le> length r \<Longrightarrow> read_u16 r = Ok (be_u16 (r ! 0) (r ! 1), drop 2 r)"
  by (simp add: read_u16_def ReadFull_def)

lemma read_u32_enough:
  "4 \<le> length r \<Longrightarrow> read_u32 r = Ok (be_u32 (r ! 0) (r ! 1) (r ! 2) (r ! 3), drop 4 r)"
  by (simp add: read_u32_def ReadFull_def)

lemma wrap_Ok: "wrap mk (Ok x) = Ok x"
  by (simp add: wrap_def)

lemma rbind_Ok: "rbind (Ok x) f = f x"
  by (simp add: rbind_def)

text \<open>
  The loops over the runes of a string consume at least one byte per step, so the length
  of the string bounds their steps: any larger bound gives the same result.
\<close>

lemma DecodeRune_width: "s \<noteq> [] \<Longrightarrow> 1 \<le> snd (DecodeRune s)"
  by (auto simp: DecodeRune_def split: list.splits)

lemma runes_upto_fuel:
  "length s \<le> n \<Longrightarrow> length s \<le> m \<Longrightarrow> runes_upto n s = runes_upto m s"
proof (induction n arbitrary: s m)
  case 0
  then show ?case by (cases m) simp_all
next
  case (Suc n)
  show ?case
  proof (cases "s = []")
    case True
    then show ?thesis by (cases m) simp_all
  next
    case False
    obtain r sz where d: "DecodeRune s = (r, sz)"
      by (cases "DecodeRune s")
    with DecodeRune_width [OF False] have sz: "1 \<le> sz"
      by simp
    from False Suc.prems obtain m' where m: "m = Suc m'"
      by (cases m) auto
    have "length (drop sz s) \<le> n" "length (drop sz s) \<le> m'"
      using sz False Suc.prems m by (cases s; simp)+
    then have "runes_upto n (drop sz s) = runes_upto m' (drop sz s)"
      by (rule Suc.IH)
    then show ?thesis
      using False d m by simp
  qed
qed

lemma runes_upto_enough: "length s \<le> n \<Longrightarrow> runes_upto n s = runes s"
  unfolding runes_def by (rule runes_upto_fuel) simp_all

lemma valid_upto_fuel:
  "length s \<le> n \<Longrightarrow> length s \<le> m \<Longrightarrow> valid_upto n s = valid_upto m s"
proof (induction n arbitrary: s m)
  case 0
  then show ?case by (cases m) simp_all
next
  case (Suc n)
  show ?case
  proof (cases "s = []")
    case True
    then show ?thesis by (cases m) simp_all
  next
    case False
    obtain r sz where d: "DecodeRune s = (r, sz)"
      by (cases "DecodeRune s")
    with DecodeRune_width [OF False] have sz: "1 \<le> sz"
      by simp
    from False Suc.prems obtain m' where m: "m = Suc m'"
      by (cases m) auto
    have "length (drop sz s) \<le> n" "length (drop sz s) \<le> m'"
      using sz False Suc.prems m by (cases s; simp)+
    then have "valid_upto n (drop sz s) = valid_upto m' (drop sz s)"
      by (rule Suc.IH)
    then show ?thesis
      using False d m by simp
  qed
qed

lemma valid_upto_enough: "length s \<le> n \<Longrightarrow> valid_upto n s = ValidString s"
  unfolding ValidString_def by (rule valid_upto_fuel) simp_all

section \<open>C1: the cap on the number of Hextile tiles\<close>

text \<open>
  The tile count is a product of two \<open>uint16\<close> values, computed in \<open>uint16\<close>: it never
  exceeds 65535, so the comparison with \<open>maxTiles\<close> never succeeds.
\<close>

lemma totalTiles_le_maxTiles:
  "unat (((w + HextileTileSize - 1) div HextileTileSize) *
         ((h + HextileTileSize - 1) div HextileTileSize)) \<le> maxTiles"
proof -
  have "unat (((w + HextileTileSize - 1) div HextileTileSize) *
              ((h + HextileTileSize - 1) div HextileTileSize)) < 2 ^ 16"
    using unsigned_less [of "((w + HextileTileSize - 1) div HextileTileSize) *
                             ((h + HextileTileSize - 1) div HextileTileSize)", where 'a = nat]
    by simp
  then show ?thesis
    by (simp add: maxTiles_def)
qed

lemma tile_positions_320: "tile_positions 320 320 = (0, 0) # tl (tile_positions 320 320)"
  by (simp add: tile_positions_def upt_rec [of 0])

text \<open>
  C1. The claim has \<open>HextileEncoding.Read\<close> reject, before it reads any tile data, every
  rectangle that needs more than 100,000 tiles. A rectangle of 5120 by 5120 pixels, inside
  a framebuffer of that size, needs 320 * 320 = 102,400 tiles. In \<open>uint16\<close> the product is
  36,864: the cap check passes, and the decoder goes on to read the first tile's
  subencoding byte, as its failure on an empty stream shows.
\<close>

theorem HextileEncoding_Read_5120_passes_cap:
  "maxTiles < 320 * 320 \<and>
   HextileEncoding_Read (conn_of 5120 5120) (rect_of 0 0 5120 5120) [] =
     Err (VNCError ''HextileEncoding.Read'' ErrEncoding ''failed to read tile subencoding''
            (Some EOF))"
proof -
  have "HextileEncoding_Read (conn_of 5120 5120) (rect_of 0 0 5120 5120) [] =
     Err (VNCError ''HextileEncoding.Read'' ErrEncoding ''failed to read tile subencoding''
            (Some EOF))"
    apply (simp add: HextileEncoding_Read_def conn_of_def rect_of_def ValidateRectangle_def
        HextileTileSize_def maxTiles_def Let_def)
    apply (subst tile_positions_320)
    apply (simp add: tile_step_def read_tile_def rbind_def wrap_def read_u8_def ReadFull_def
        encodingError_def HextileTileSize_def)
    done
  then show ?thesis
    by (simp add: maxTiles_def)
qed

section \<open>C2: the ClientCutText frame\<close>

text \<open>The letter e with acute accent, U+00E9, is the two bytes \<open>C3 A9\<close> in UTF-8.\<close>

lemma DecodeRune_e_acute: "DecodeRune (195 # 169 # s) = (233, 2)"
  by (simp add: DecodeRune_def continuation_def)

lemma runes_upto_e_acute:
  "n \<le> k \<Longrightarrow> runes_upto k (concat (replicate n [195, 169])) = replicate n 233"
proof (induction n arbitrary: k)
  case 0
  then show ?case by (cases k) simp_all
next
  case (Suc n)
  then obtain k' where k: "k = Suc k'" and le: "n \<le> k'"
    by (cases k) auto
  show ?case
    by (simp add: k DecodeRune_e_acute Suc.IH [OF le])
qed

lemma runes_e_acute: "runes (concat (replicate n [195, 169])) = replicate n 233"
  by (simp add: runes_def runes_upto_e_acute length_concat sum_list_replicate)

lemma valid_upto_e_acute: "n \<le> k \<Longrightarrow> valid_upto k (concat (replicate n [195, 169]))"
proof (induction n arbitrary: k)
  case 0
  then show ?case by (cases k) simp_all
next
  case (Suc n)
  then obtain k' where k: "k = Suc k'" and le: "n \<le> k'"
    by (cases k) auto
  show ?case
    by (simp add: k DecodeRune_e_acute RuneError_def Suc.IH [OF le])
qed

lemma ValidString_e_acute: "ValidString (concat (replicate n [195, 169]))"
  by (simp add: ValidString_def valid_upto_e_acute length_concat sum_list_replicate)

lemma SanitizeText_e_acute:
  "SanitizeText isPrintWide (concat (replicate n [195, 169])) = concat (replicate n [195, 169])"
  by (simp add: SanitizeText_def runes_e_acute sanitize_rune_def IsPrint_def string_of_runes_def
      EncodeRune_def)

lemma ValidateTextData_e_acute:
  "n \<le> 56 \<Longrightarrow> ValidateTextData (concat (replicate n [195, 169])) MaxClipboardLength = None"
  by (simp add: ValidateTextData_def ValidString_e_acute runes_e_acute MaxClipboardLength_def
      length_concat sum_list_replicate list_ex_iff)

lemma write_chars_e_acute: "write_chars (replicate n 233) buf = Ok (buf @ replicate n 233)"
proof (induction n arbitrary: buf)
  case 0
  then show ?case by simp
next
  case (Suc n)
  show ?case
    by (simp add: Suc.IH Latin1MaxCodePoint_def replicate_app_Cons_same)
qed

text \<open>
  With 29 to 56 such letters the characters written, and the 8 bytes before them, fit
  the small backing array of the buffer, and \<open>8 + len(text)\<close> does not.
\<close>

lemma CutText_e_acute_panics:
  assumes "29 \<le> n" "n \<le> 56"
  shows "CutText isPrintWide bufcap w c (concat (replicate n [195, 169])) =
           (c, Panic ''slice bounds out of range'')"
proof -
  have "Bytes_upto bufcap (([6, 0, 0, 0] @ put_u32 (of_nat (2 * n))) @ replicate n 233)
          (2 * n + 8) = Panic ''slice bounds out of range''"
    using assms by (simp add: Bytes_upto_def Buffer_cap_def smallBufferSize_def put_u32_def)
  then show ?thesis
    unfolding CutText_def Let_def
    using assms
    by (simp add: ValidateTextData_e_acute SanitizeText_e_acute runes_e_acute write_chars_e_acute
        length_concat sum_list_replicate del: append.simps append_assoc)
qed

text \<open>
  C2. The claim has every accepted string framed as type 6, three zero bytes, a 32-bit
  length and exactly that many bytes of text. The one-letter string of U+00E9 is
  accepted: the length field is 2, the number of bytes of the UTF-8 string, while the
  text written is the single Latin-1 byte \<open>E9\<close>; the tenth byte of the frame is a zero
  from the buffer's backing array. For thirty such letters the frame would reach past
  that array, and the call panics before anything is written.
\<close>

theorem CutText_length_counts_utf8_bytes:
  "CutText isPrintWide bufcap None c [195, 169] =
     (c\<lparr>written := written c @ [6, 0, 0, 0, 0, 0, 0, 2, 233, 0]\<rparr>, Ok ()) \<and>
   CutText isPrintWide bufcap w c (concat (replicate 30 [195, 169])) =
     (c, Panic ''slice bounds out of range'')"
proof -
  have one: "concat (replicate (Suc 0) [195, 169 :: u8]) = [195, 169]"
    by simp
  have runes: "runes [195, 169] = [233]"
    using runes_e_acute [of "Suc 0"] by simp
  have validate: "ValidateTextData [195, 169] MaxClipboardLength = None"
    using ValidateTextData_e_acute [of "Suc 0"] by simp
  have sanitize: "SanitizeText isPrintWide [195, 169] = [195, 169]"
    using SanitizeText_e_acute [of isPrintWide "Suc 0"] by simp
  have buf: "Bytes_upto bufcap [6, 0, 0, 0, 0, 0, 0, 2, 233] 10 =
               Ok [6, 0, 0, 0, 0, 0, 0, 2, 233, 0]"
    by (simp add: Bytes_upto_pad Buffer_cap_def smallBufferSize_def)
  have "CutText isPrintWide bufcap None c [195, 169] =
     (c\<lparr>written := written c @ [6, 0, 0, 0, 0, 0, 0, 2, 233, 0]\<rparr>, Ok ())"
    unfolding CutText_def validate sanitize Let_def
    by (simp add: runes put_u32_def Latin1MaxCodePoint_def buf writeWithContext_def)
  moreover have "CutText isPrintWide bufcap w c (concat (replicate 30 [195, 169])) =
     (c, Panic ''slice bounds out of range'')"
    by (rule CutText_e_acute_panics) simp_all
  ultimately show ?thesis
    by blast
qed

section \<open>C3: the response to the VNC challenge\<close>

lemma reverseLookup_all:
  "list_all (\<lambda>n. reverseLookup ! n = word_reverse (word_of_nat n :: u8)) [0..<256]"
  by code_simp

lemma reverseBitsSecure_word_reverse: "reverseBitsSecure b = word_reverse b"
proof -
  have "unat b < 256"
    using unsigned_less [of b, where 'a = nat] by simp
  then have "unat b \<in> set [0..<256]"
    by simp
  with reverseLookup_all have "reverseLookup ! unat b = word_reverse (word_of_nat (unat b) :: u8)"
    unfolding list_all_iff by blast
  then show ?thesis
    by (simp add: reverseBitsSecure_def)
qed

lemma word_reverse_zero: "word_reverse (0 :: u8) = 0"
  by (rule bit_word_eqI) (simp add: bit_simps)

lemma keyBytes_vnc_key:
  "map (\<lambda>i. if i < (if length password > VNCMaxPasswordLength then VNCMaxPasswordLength
                     else length password)
             then reverseBitsSecure (password ! i) else 0) [0..<DESKeySize] =
   vnc_key password"
proof (rule nth_equalityI)
  show "length (map (\<lambda>i. if i < (if length password > VNCMaxPasswordLength
                                  then VNCMaxPasswordLength else length password)
                          then reverseBitsSecure (password ! i) else 0) [0..<DESKeySize]) =
        length (vnc_key password)"
    by (simp add: vnc_key_def DESKeySize_def)
next
  fix i
  assume "i < length (map (\<lambda>i. if i < (if length password > VNCMaxPasswordLength
                                        then VNCMaxPasswordLength else length password)
                                then reverseBitsSecure (password ! i) else 0) [0..<DESKeySize])"
  then have i: "i < 8"
    by (simp add: DESKeySize_def)
  then show "map (\<lambda>i. if i < (if length password > VNCMaxPasswordLength
                               then VNCMaxPasswordLength else length password)
                       then reverseBitsSecure (password ! i) else 0) [0..<DESKeySize] ! i =
             vnc_key password ! i"
    by (simp add: vnc_key_def DESKeySize_def VNCMaxPasswordLength_def nth_append
        reverseBitsSecure_word_reverse word_reverse_zero)
qed

lemma length_Encrypt: "length (Encrypt des key src) = 8"
  by (simp add: Encrypt_def put_u64_def)

lemma EncryptVNCChallenge_eq:
  assumes "length challenge = 16"
  shows "EncryptVNCChallenge des password challenge =
           Ok (Encrypt des (vnc_key password) (take 8 challenge) @
               Encrypt des (vnc_key password) (drop 8 challenge))"
proof -
  have key: "length (vnc_key password) = 8"
    by (simp add: vnc_key_def)
  show ?thesis
    unfolding EncryptVNCChallenge_def Let_def keyBytes_vnc_key
    using assms
    by (simp add: VNCChallengeSize_def DESKeySize_def key length_Encrypt)
qed

lemma vnc_key_prefix: "vnc_key (take 8 password) = vnc_key password"
proof -
  have "take 8 (take 8 password @ replicate 8 0) = take 8 (password @ replicate 8 (0 :: u8))"
    by (cases "length password \<le> 8") simp_all
  then show ?thesis
    by (simp add: vnc_key_def)
qed

lemma EncryptVNCChallenge_prefix:
  "EncryptVNCChallenge des (take 8 password) challenge =
   EncryptVNCChallenge des password challenge"
proof (cases "length challenge = 16")
  case True
  then show ?thesis
    by (simp add: EncryptVNCChallenge_eq vnc_key_prefix)
next
  case False
  then show ?thesis
    by (simp add: EncryptVNCChallenge_def VNCChallengeSize_def)
qed

text \<open>
  C3. For a challenge of 16 bytes, \<open>EncryptVNCChallenge\<close> returns the DES encryption of
  the first half followed by that of the second half, both under the key \<open>vnc_key\<close> of
  the password: its first eight bytes, zero-padded, each bit-reversed. The table
  lookup \<open>reverseBitsSecure\<close> is the reversal of the bit order (bit \<open>n\<close> of the result is
  bit \<open>7 - n\<close> of the byte), and sends \<open>0x31\<close> to \<open>0x8C\<close>. The result is a function of the
  block cipher, the password and the challenge alone, and a password gives the same
  result as its first eight bytes, whatever the challenge.
\<close>

theorem EncryptVNCChallenge_response:
  "(length challenge = 16 \<longrightarrow>
      EncryptVNCChallenge des password challenge =
        Ok (Encrypt des (vnc_key password) (take 8 challenge) @
            Encrypt des (vnc_key password) (drop 8 challenge))) \<and>
   (\<forall>b n. bit (reverseBitsSecure b) n \<longleftrightarrow> n < 8 \<and> bit b (7 - n)) \<and>
   reverseBitsSecure 0x31 = 0x8C \<and>
   EncryptVNCChallenge des password challenge =
     EncryptVNCChallenge des (take 8 password) challenge"
proof (intro conjI allI impI)
  assume "length challenge = 16"
  then show "EncryptVNCChallenge des password challenge =
        Ok (Encrypt des (vnc_key password) (take 8 challenge) @
            Encrypt des (vnc_key password) (drop 8 challenge))"
    by (rule EncryptVNCChallenge_eq)
next
  fix b :: u8 and n
  show "bit (reverseBitsSecure b) n \<longleftrightarrow> n < 8 \<and> bit b (7 - n)"
    by (simp add: reverseBitsSecure_word_reverse bit_simps)
next
  show "reverseBitsSecure 0x31 = 0x8C"
    by (simp add: reverseBitsSecure_def reverseLookup_def)
next
  show "EncryptVNCChallenge des password challenge =
          EncryptVNCChallenge des (take 8 password) challenge"
    by (simp add: EncryptVNCChallenge_prefix)
qed

text \<open>
  The scenario of the specification, password "123456" and the challenge 0 to 15: the
  key is \<open>8C 4C CC 2C AC 6C 00 00\<close>; and a ten-byte password answers as its first eight
  bytes do.
\<close>

theorem EncryptVNCChallenge_response_witness:
  "length challenge_0_15 = 16 \<and>
   vnc_key password_123456 = [0x8C, 0x4C, 0xCC, 0x2C, 0xAC, 0x6C, 0, 0] \<and>
   EncryptVNCChallenge xor_block password_123456 challenge_0_15 =
     Ok (Encrypt xor_block [0x8C, 0x4C, 0xCC, 0x2C, 0xAC, 0x6C, 0, 0] [0, 1, 2, 3, 4, 5, 6, 7] @
         Encrypt xor_block [0x8C, 0x4C, 0xCC, 0x2C, 0xAC, 0x6C, 0, 0]
           [8, 9, 10, 11, 12, 13, 14, 15]) \<and>
   EncryptVNCChallenge xor_block password_long challenge_0_15 =
     EncryptVNCChallenge xor_block [49, 50, 51, 52, 53, 54, 55, 56] challenge_0_15"
proof -
  have len: "length challenge_0_15 = 16"
    by (simp add: challenge_0_15_def)
  have rev: "word_reverse (49 :: u8) = 0x8C" "word_reverse (50 :: u8) = 0x4C"
    "word_reverse (51 :: u8) = 0xCC" "word_reverse (52 :: u8) = 0x2C"
    "word_reverse (53 :: u8) = 0xAC" "word_reverse (54 :: u8) = 0x6C"
    by (simp_all add: reverseBitsSecure_word_reverse [symmetric] reverseBitsSecure_def
        reverseLookup_def)
  have key: "vnc_key password_123456 = [0x8C, 0x4C, 0xCC, 0x2C, 0xAC, 0x6C, 0, 0]"
    by (simp add: vnc_key_def password_123456_def rev word_reverse_zero eval_nat_numeral)
  from EncryptVNCChallenge_response [of challenge_0_15 xor_block password_123456] len
  have "EncryptVNCChallenge xor_block password_123456 challenge_0_15 =
        Ok (Encrypt xor_block (vnc_key password_123456) (take 8 challenge_0_15) @
            Encrypt xor_block (vnc_key password_123456) (drop 8 challenge_0_15))"
    by blast
  then have response: "EncryptVNCChallenge xor_block password_123456 challenge_0_15 =
     Ok (Encrypt xor_block [0x8C, 0x4C, 0xCC, 0x2C, 0xAC, 0x6C, 0, 0] [0, 1, 2, 3, 4, 5, 6, 7] @
         Encrypt xor_block [0x8C, 0x4C, 0xCC, 0x2C, 0xAC, 0x6C, 0, 0]
           [8, 9, 10, 11, 12, 13, 14, 15])"
    unfolding key by (simp add: challenge_0_15_def)
  from EncryptVNCChallenge_response [of challenge_0_15 xor_block password_long]
  have "EncryptVNCChallenge xor_block password_long challenge_0_15 =
        EncryptVNCChallenge xor_block (take 8 password_long) challenge_0_15"
    by blast
  then have long: "EncryptVNCChallenge xor_block password_long challenge_0_15 =
     EncryptVNCChallenge xor_block [49, 50, 51, 52, 53, 54, 55, 56] challenge_0_15"
    by (simp add: password_long_def)
  from len key response long show ?thesis
    by blast
qed

section \<open>C4: the pixel-format validator and shifts of \<open>bpp - 1\<close>\<close>

text \<open>What the validator accepts, condition by condition.\<close>

lemma ValidatePixelFormat_accepts_iff:
  "ValidatePixelFormat (Some pf) = None \<longleftrightarrow>
     (BPP pf = 8 \<or> BPP pf = 16 \<or> BPP pf = 32) \<and> Depth pf \<noteq> 0 \<and> Depth pf \<le> BPP pf \<and>
     (TrueColor pf \<longrightarrow>
        RedMax pf \<noteq> 0 \<and> GreenMax pf \<noteq> 0 \<and> BlueMax pf \<noteq> 0 \<and>
        RedShift pf < BPP pf - 1 \<and> GreenShift pf < BPP pf - 1 \<and> BlueShift pf < BPP pf - 1 \<and>
        countBits (ucast (RedMax pf)) + countBits (ucast (GreenMax pf)) +
          countBits (ucast (BlueMax pf)) \<le> unat (Depth pf))"
proof -
  have reject: "((if c then Some e else x) = None) = (\<not> c \<and> x = None)"
    for c and e :: error and x
    by simp
  have skip: "((if c then x else None) = None) = (c \<longrightarrow> x = None)"
    for c and x :: "error option"
    by simp
  have "ValidatePixelFormat (Some pf) = None \<longleftrightarrow>
     (BPP pf = 8 \<or> BPP pf = 16 \<or> BPP pf = 32) \<and> \<not> (Depth pf = 0 \<or> Depth pf > BPP pf) \<and>
     (TrueColor pf \<longrightarrow>
        \<not> (RedMax pf = 0 \<or> GreenMax pf = 0 \<or> BlueMax pf = 0) \<and>
        \<not> (RedShift pf \<ge> BPP pf - 1 \<or> GreenShift pf \<ge> BPP pf - 1 \<or> BlueShift pf \<ge> BPP pf - 1) \<and>
        \<not> (countBits (ucast (RedMax pf)) + countBits (ucast (GreenMax pf)) +
             countBits (ucast (BlueMax pf)) > unat (Depth pf)))"
    unfolding ValidatePixelFormat_def Let_def
    by (simp only: option.case option.distinct reject skip simp_thms)
  also have "\<dots> \<longleftrightarrow>
     (BPP pf = 8 \<or> BPP pf = 16 \<or> BPP pf = 32) \<and> Depth pf \<noteq> 0 \<and> Depth pf \<le> BPP pf \<and>
     (TrueColor pf \<longrightarrow>
        RedMax pf \<noteq> 0 \<and> GreenMax pf \<noteq> 0 \<and> BlueMax pf \<noteq> 0 \<and>
        RedShift pf < BPP pf - 1 \<and> GreenShift pf < BPP pf - 1 \<and> BlueShift pf < BPP pf - 1 \<and>
        countBits (ucast (RedMax pf)) + countBits (ucast (GreenMax pf)) +
          countBits (ucast (BlueMax pf)) \<le> unat (Depth pf))"
    by (simp only: de_Morgan_disj [of "Depth pf = 0"] de_Morgan_disj [of "RedMax pf = 0"]
        de_Morgan_disj [of "GreenMax pf = 0"] de_Morgan_disj [of "BPP pf - 1 \<le> RedShift pf"]
        de_Morgan_disj [of "BPP pf - 1 \<le> GreenShift pf"] not_le not_less conj_assoc)
  finally show ?thesis .
qed

text \<open>
  C4. The claim has the validator accept a true-colour format whose shifts are each
  strictly below \<open>bpp\<close>, a shift of \<open>bpp - 1\<close> included. The validator compares each shift
  with \<open>maxShift = bpp - 1\<close> by \<open>\<ge>\<close>: the format \<open>pf_r1g3b4\<close>, which meets every condition
  of the claim (bpp 8, depth 8, non-zero maxima, shifts 7, 4 and 0, 1 + 3 + 4 bits),
  is rejected as having shifts too large.
\<close>

theorem ValidatePixelFormat_rejects_shift_bpp_minus_1:
  "ValidatePixelFormat (Some pf_r1g3b4) =
     Some (VNCError ''InputValidator.ValidatePixelFormat'' ErrValidation
             ''color shifts too large for %d BPP format'' None)"
  by (simp add: ValidatePixelFormat_def pf_r1g3b4_def validationError_def)

section \<open>C5: the wire round trip of a pixel format\<close>

lemma writePixelFormat_bytes:
  "writePixelFormat p =
     Ok ([BPP p, Depth p, boolByte (BigEndian p), boolByte (TrueColor p)] @
         (if TrueColor p
          then put_u16 (RedMax p) @ put_u16 (GreenMax p) @ put_u16 (BlueMax p) @
               [RedShift p, GreenShift p, BlueShift p] @ replicate 3 0
          else replicate 12 0))"
  by (simp add: writePixelFormat_def Bytes_upto_pad Buffer_cap_def smallBufferSize_def put_u16_def)

text \<open>
  C5, as amended. For every pixel format \<open>p\<close>, \<open>writePixelFormat\<close> succeeds with exactly 16
  bytes, and \<open>readPixelFormat\<close> on those bytes, into a zero-initialised struct, consumes
  them all and yields \<open>p\<close> itself when \<open>p\<close> is a true-colour format, and \<open>p\<close> with its
  three maxima and three shifts cleared when it is not: both functions skip the colour
  fields unless the true-colour flag is set.
\<close>

theorem pixel_format_roundtrip:
  "(case writePixelFormat p of
      Ok bs \<Rightarrow>
        length bs = 16 \<and>
        readPixelFormat bs PixelFormat_zero =
          Ok (if TrueColor p then p else clear_colour_fields p, [])
    | Err e \<Rightarrow> False
    | Panic s \<Rightarrow> False)"
  by (cases "TrueColor p"; cases "BigEndian p")
     (simp_all add: writePixelFormat_bytes put_u16_def readPixelFormat_def rbind_def wrap_def
        ReadFull_def read_u8_def read_u16_def boolByte_def be_u16_put PixelFormat_zero_def
        clear_colour_fields_def)

theorem pixel_format_roundtrip_witness:
  "writePixelFormat PixelFormat32BitRGBA =
     Ok [32, 24, 0, 1, 0, 255, 0, 255, 0, 255, 16, 8, 0, 0, 0, 0] \<and>
   readPixelFormat [32, 24, 0, 1, 0, 255, 0, 255, 0, 255, 16, 8, 0, 0, 0, 0] PixelFormat_zero =
     Ok (PixelFormat32BitRGBA, [])"
proof -
  have w: "writePixelFormat PixelFormat32BitRGBA =
             Ok [32, 24, 0, 1, 0, 255, 0, 255, 0, 255, 16, 8, 0, 0, 0, 0]"
    by (simp add: writePixelFormat_bytes PixelFormat32BitRGBA_def put_u16_def boolByte_def
        numeral_3_eq_3)
  show ?thesis
    using pixel_format_roundtrip [of PixelFormat32BitRGBA] unfolding w
    by (simp add: PixelFormat32BitRGBA_def)
qed

text \<open>
  The claim as stated fails on a format that is not true-colour and has a colour field
  set: its 16 bytes carry zeros there, and decoding gives the plain indexed format.
\<close>

theorem pixel_format_roundtrip_counterexample:
  "writePixelFormat pf_indexed_bgr233 = Ok [8, 8, 0, 0, 0, 0, 0, 0, 0, 0, 0, 0, 0, 0, 0, 0] \<and>
   readPixelFormat [8, 8, 0, 0, 0, 0, 0, 0, 0, 0, 0, 0, 0, 0, 0, 0] PixelFormat_zero =
     Ok (PixelFormat8BitIndexed, []) \<and>
   PixelFormat8BitIndexed \<noteq> pf_indexed_bgr233"
proof -
  have rep: "replicate 12 (0 :: u8) = [0, 0, 0, 0, 0, 0, 0, 0, 0, 0, 0, 0]"
    by (simp add: eval_nat_numeral)
  have "writePixelFormat pf_indexed_bgr233 = Ok [8, 8, 0, 0, 0, 0, 0, 0, 0, 0, 0, 0, 0, 0, 0, 0]"
    by (simp add: writePixelFormat_bytes pf_indexed_bgr233_def boolByte_def rep
        del: replicate.simps)
  moreover have "readPixelFormat [8, 8, 0, 0, 0, 0, 0, 0, 0, 0, 0, 0, 0, 0, 0, 0] PixelFormat_zero =
      Ok (PixelFormat8BitIndexed, [])"
    by (simp add: readPixelFormat_def rbind_def wrap_def ReadFull_def read_u8_def
        PixelFormat_zero_def PixelFormat8BitIndexed_def)
  moreover have "PixelFormat8BitIndexed \<noteq> pf_indexed_bgr233"
    by (simp add: PixelFormat8BitIndexed_def pf_indexed_bgr233_def)
  ultimately show ?thesis
    by blast
qed

section \<open>C6: reading one pixel\<close>

text \<open>
  For a true-colour format of 8, 16 or 32 bits per pixel the reader consumes \<open>bpp / 8\<close>
  bytes, and the colour is the raw pixel shifted and masked, component by component.
  For a colour-mapped format of 8 bits per pixel it is the colour-map entry at the byte.
\<close>

lemma ReadPixelColor_true_color:
  assumes tc: "TrueColor pf" and bpp: "BPP pf = 8 \<or> BPP pf = 16 \<or> BPP pf = 32"
    and len: "unat (BPP pf div 8) \<le> length r"
  shows "\<exists>raw. bytesToPixel (NewPixelReader pf cm) (take (unat (BPP pf div 8)) r) = Ok raw \<and>
           ReadPixelColor (NewPixelReader pf cm) r =
             Ok (\<lparr>R = ucast (drop_bit (unat (RedShift pf)) raw AND ucast (RedMax pf)),
                  G = ucast (drop_bit (unat (GreenShift pf)) raw AND ucast (GreenMax pf)),
                  B = ucast (drop_bit (unat (BlueShift pf)) raw AND ucast (BlueMax pf))\<rparr>,
                 drop (unat (BPP pf div 8)) r)"
proof -
  have idx: "(a # xs) ! 1 = xs ! 0" for a :: u8 and xs
    by simp
  have "\<exists>raw. bytesToPixel (NewPixelReader pf cm) (take (unat (BPP pf div 8)) r) = Ok raw"
  proof -
    consider "BPP pf = 8" | "BPP pf = 16" | "BPP pf = 32"
      using bpp by blast
    then show ?thesis
    proof cases
      case 1
      with len show ?thesis
        by (cases r) (simp_all add: bytesToPixel_def NewPixelReader_def)
    next
      case 2
      with len have "length (take (unat (BPP pf div 8)) r) = 2"
        by simp
      with 2 show ?thesis
        by (cases "BigEndian pf")
           (simp_all add: bytesToPixel_def NewPixelReader_def Uint16_def rbind_def)
    next
      case 3
      with len have "length (take (unat (BPP pf div 8)) r) = 4"
        by simp
      with 3 show ?thesis
        by (cases "BigEndian pf")
           (simp_all add: bytesToPixel_def NewPixelReader_def Uint32_def)
    qed
  qed
  then obtain raw where
    raw: "bytesToPixel (NewPixelReader pf cm) (take (unat (BPP pf div 8)) r) = Ok raw"
    by blast
  have fmt: "pixelFormat (NewPixelReader pf cm) = pf"
    by (simp add: NewPixelReader_def)
  from raw tc len show ?thesis
    by (simp add: ReadPixelColor_def BytesPerPixel_def fmt ReadFull_enough rbind_Ok
        pixelToColor_def)
qed

lemma ReadPixelColor_indexed8:
  assumes "\<not> TrueColor pf" "BPP pf = 8"
  shows "ReadPixelColor (NewPixelReader pf cm) (b # r) = Ok (cm b, r)"
proof -
  have "unat (ucast b :: u32) < 256"
    using unsigned_less [of b, where 'a = nat] by (simp add: unsigned_ucast_eq take_bit_nat_eq_self)
  moreover have "(ucast (ucast b :: u32) :: u8) = b"
    by (rule bit_word_eqI) (auto simp: bit_simps)
  ultimately show ?thesis
    using assms
    by (simp add: ReadPixelColor_def BytesPerPixel_def ReadFull_def rbind_def bytesToPixel_def
        pixelToColor_def NewPixelReader_def ColorMapSize_def)
qed

text \<open>
  C6. The claim has \<open>ReadPixelColor\<close>, for a format that is not true-colour, return the
  colour-map entry at the raw pixel, an index between 0 and 255. The format
  \<open>pf_indexed16\<close> passes the validator, the two bytes \<open>01 00\<close> assemble to the raw pixel
  256, and indexing the 256-entry colour map with it panics: no colour is returned.
\<close>

theorem ReadPixelColor_indexed16_panics:
  "ValidatePixelFormat (Some pf_indexed16) = None \<and>
   bytesToPixel (NewPixelReader pf_indexed16 cm) [1, 0] = Ok 256 \<and>
   ReadPixelColor (NewPixelReader pf_indexed16 cm) [1, 0] = Panic ''index out of range''"
  by (simp add: ValidatePixelFormat_def pf_indexed16_def ReadPixelColor_def NewPixelReader_def
      BytesPerPixel_def ReadFull_def bytesToPixel_def Uint16_def pixelToColor_def
      ColorMapSize_def rbind_def)

section \<open>C7: Hextile tiles inherit the running background and foreground\<close>



























section \<open>C8: framebuffer bounds are checked for real encodings only\<close>

lemma unat_u16_le: "unat w \<le> 65535" for w :: u16
  using unsigned_less [of w, where 'a = nat] by simp

lemma overflow_guard: "65535 - w < x \<longleftrightarrow> 65535 < unat x + unat w" for x w :: u16
proof -
  have "w \<le> 65535"
    by (simp add: word_le_nat_alt unat_u16_le)
  then have "unat (65535 - w) = 65535 - unat w"
    using unat_sub [of w 65535] by simp
  then show ?thesis
    using unat_u16_le [of w] by (auto simp: word_less_nat_alt)
qed

lemma unat_u16_add: "unat x + unat w \<le> 65535 \<Longrightarrow> unat (x + w) = unat x + unat w" for x w :: u16
  using unat_add_lem [of x w] by simp

lemma ValidateRectangle_None_iff:
  "ValidateRectangle x y w h fw fh = None \<longleftrightarrow>
     w \<noteq> 0 \<and> h \<noteq> 0 \<and> unat x + unat w \<le> unat fw \<and> unat y + unat h \<le> unat fh"
proof (cases "unat x + unat w \<le> 65535 \<and> unat y + unat h \<le> 65535")
  case True
  then show ?thesis
    unfolding ValidateRectangle_def overflow_guard
    by (auto simp: word_less_nat_alt unat_u16_add)
next
  case False
  then show ?thesis
    using unat_u16_le [of fw] unat_u16_le [of fh]
    unfolding ValidateRectangle_def overflow_guard
    by auto
qed




lemma out_of_bounds_is_protocol_error:
  assumes "read_rectangle_header r = Ok (rect, et, r')" "0 \<le> sint et"
    "\<not> within_framebuffer c rect"
  shows "\<exists>e. read_rectangle M encMap c r = (None, Err e) \<and> Code e = Some ErrProtocol"
proof (cases "ValidateEncodingType et")
  case None
  from assms(3) obtain err where
    "ValidateRectangle (X rect) (Y rect) (Width rect) (Height rect)
       (FrameBufferWidth c) (FrameBufferHeight c) = Some err"
    using ValidateRectangle_None_iff [of "X rect" "Y rect" "Width rect" "Height rect"
        "FrameBufferWidth c" "FrameBufferHeight c"]
    by (auto simp: within_framebuffer_def)
  with assms(1,2) None show ?thesis
    by (simp add: read_rectangle_def protocolError_def)
next
  case (Some err)
  with assms(1) show ?thesis
    by (simp add: read_rectangle_def protocolError_def)
qed

text \<open>Whether the decoder is invoked for a rectangle, exactly.\<close>

lemma read_rectangle_invokes:
  assumes "read_rectangle_header r = Ok (rect, et, r')"
  shows "fst (read_rectangle M encMap c r) =
           (if ValidateEncodingType et = None \<and> (0 \<le> sint et \<longrightarrow> within_framebuffer c rect) \<and>
               encMap et \<noteq> None
            then Some (c, rect, et) else None)"
proof (cases "ValidateEncodingType et")
  case None
  show ?thesis
  proof (cases "0 \<le> sint et")
    case True
    with assms None show ?thesis
      by (cases "ValidateRectangle (X rect) (Y rect) (Width rect) (Height rect)
                   (FrameBufferWidth c) (FrameBufferHeight c)"; cases "encMap et")
         (auto simp: read_rectangle_def within_framebuffer_def ValidateRectangle_None_iff
            simp flip: ValidateRectangle_None_iff)
  next
    case False
    with assms None show ?thesis
      by (cases "encMap et") (auto simp: read_rectangle_def)
  qed
next
  case (Some err)
  with assms show ?thesis
    by (simp add: read_rectangle_def)
qed

text \<open>An iteration that invokes no decoder has failed.\<close>

lemma read_rectangle_no_call:
  assumes "read_rectangle M encMap c r = (None, res)"
  shows "res \<noteq> Ok v"
  using assms
  by (auto simp: read_rectangle_def Let_def
      split: result.splits option.splits prod.splits if_splits)

text \<open>
  The loop over \<open>k + m\<close> rectangles, once the first \<open>k\<close> are parsed, goes on as the
  loop over \<open>m\<close> rectangles from the connection and the reader they left.
\<close>

lemma read_rectangles_add:
  "read_rectangles M encMap k c r = (calls, Ok (rects, c1, r1)) \<Longrightarrow>
   read_rectangles M encMap (k + m) c r =
     (case read_rectangles M encMap m c1 r1 of
        (calls', rest) \<Rightarrow>
          (calls @ calls', rbind rest (\<lambda>(rects', c'', r''). Ok (rects @ rects', c'', r''))))"
proof (induction k arbitrary: c r calls rects)
  case 0
  then show ?case
    by (cases "read_rectangles M encMap m c1 r1"; cases "snd (read_rectangles M encMap m c1 r1)")
       (auto simp: rbind_def)
next
  case (Suc k)
  obtain call res where step: "read_rectangle M encMap c r = (call, res)"
    by (cases "read_rectangle M encMap c r")
  from Suc.prems step obtain rect c' r' where res: "res = Ok (rect, c', r')"
    by (cases res) (auto split: prod.splits)
  obtain calls0 rest0 where loop: "read_rectangles M encMap k c' r' = (calls0, rest0)"
    by (cases "read_rectangles M encMap k c' r'")
  from Suc.prems step res loop obtain rects0 where
    rest0: "rest0 = Ok (rects0, c1, r1)" and rects: "rects = rect # rects0"
    and calls: "calls = (case call of None \<Rightarrow> [] | Some k \<Rightarrow> [k]) @ calls0"
    by (auto simp: rbind_Ok_iff)
  note IH = Suc.IH [OF loop [unfolded rest0]]
  obtain calls' rest where tail: "read_rectangles M encMap m c1 r1 = (calls', rest)"
    by (cases "read_rectangles M encMap m c1 r1")
  show ?case
    by (cases rest) (auto simp: step res IH tail calls rects rbind_def)
qed

text \<open>
  The next rectangle, after \<open>k\<close> rectangles are parsed: refused with a Protocol error if
  its type is not negative and it does not lie within the framebuffer, and handed to a
  decoder exactly under the three conditions of \<open>read_rectangle_invokes\<close>.
\<close>

lemma read_rectangles_next:
  assumes parsed: "read_rectangles M encMap k c r = (calls, Ok (rects, c1, r1))"
      and more: "k < n"
      and hdr: "read_rectangle_header r1 = Ok (rect, et, r2)"
  shows "(0 \<le> sint et \<longrightarrow> \<not> within_framebuffer c1 rect \<longrightarrow>
            (\<exists>e. read_rectangles M encMap n c r = (calls, Err e) \<and> Code e = Some ErrProtocol)) \<and>
         ((\<exists>cs. fst (read_rectangles M encMap n c r) = calls @ (c1, rect, et) # cs) \<longleftrightarrow>
            ValidateEncodingType et = None \<and> (0 \<le> sint et \<longrightarrow> within_framebuffer c1 rect) \<and>
            encMap et \<noteq> None)"
proof -
  from more obtain m where n: "n = k + Suc m"
    by (auto simp: less_iff_Suc_add)
  obtain call res where step: "read_rectangle M encMap c1 r1 = (call, res)"
    by (cases "read_rectangle M encMap c1 r1")
  have call: "call = (if ValidateEncodingType et = None \<and>
                         (0 \<le> sint et \<longrightarrow> within_framebuffer c1 rect) \<and> encMap et \<noteq> None
                      then Some (c1, rect, et) else None)"
    using read_rectangle_invokes [OF hdr, of M encMap c1] step by simp
  obtain calls' rest where tail: "read_rectangles M encMap (Suc m) c1 r1 = (calls', rest)"
    by (cases "read_rectangles M encMap (Suc m) c1 r1")
  have whole: "read_rectangles M encMap n c r =
                 (calls @ calls', rbind rest (\<lambda>(rects', c'', r''). Ok (rects @ rects', c'', r'')))"
    unfolding n read_rectangles_add [OF parsed] tail by simp
  have refused: "\<exists>e. calls' = [] \<and> rest = Err e \<and> Code e = Some ErrProtocol"
    if "0 \<le> sint et" "\<not> within_framebuffer c1 rect"
  proof -
    from out_of_bounds_is_protocol_error [OF hdr that, of M encMap] step obtain e where
      "call = None" "res = Err e" "Code e = Some ErrProtocol"
      by auto
    with tail step show ?thesis
      by auto
  qed
  have invoked: "\<exists>cs. calls' = (case call of None \<Rightarrow> [] | Some k \<Rightarrow> k # cs)"
  proof (cases call)
    case None
    with read_rectangle_no_call [OF step [unfolded None]] tail step show ?thesis
      by (cases res) auto
  next
    case (Some k)
    with tail step show ?thesis
      by (cases res) (auto split: prod.splits)
  qed
  show ?thesis
  proof (intro conjI impI)
    assume "0 \<le> sint et" "\<not> within_framebuffer c1 rect"
    from refused [OF this] whole
    show "\<exists>e. read_rectangles M encMap n c r = (calls, Err e) \<and> Code e = Some ErrProtocol"
      by (auto simp: rbind_def)
  next
    from invoked whole call
    show "(\<exists>cs. fst (read_rectangles M encMap n c r) = calls @ (c1, rect, et) # cs) \<longleftrightarrow>
            ValidateEncodingType et = None \<and> (0 \<le> sint et \<longrightarrow> within_framebuffer c1 rect) \<and>
            encMap et \<noteq> None"
      by (auto split: if_splits)
  qed
qed

text \<open>The parser on a message that starts with a padding byte and a count.\<close>

lemma FramebufferUpdateMessage_Read_Cons:
  "FramebufferUpdateMessage_Read M rawEnc cursorPseudo desktopSizePseudo c (pad # hi # lo # r) =
     (if be_u16 hi lo > MaxRectanglesPerUpdate
      then ([], Err (protocolError ''FramebufferUpdateMessage.Read''
                       ''too many rectangles in update: %d (max %d)'' None))
      else (case read_rectangles M (build_encMap M rawEnc cursorPseudo desktopSizePseudo c)
                   (unat (be_u16 hi lo)) c r of
              (calls, rest) \<Rightarrow>
                (calls, rbind rest (\<lambda>(rects, c', r'). Ok (\<lparr>Rectangles = rects\<rparr>, c', r')))))"
  by (simp add: FramebufferUpdateMessage_Read_def ReadFull_def wrap_def read_u16_def)

lemma FramebufferUpdateMessage_Read_next:
  assumes parsed: "FramebufferUpdateMessage_Read M rawEnc cursorPseudo desktopSizePseudo c
                     (pad # hi # lo # r) = (calls, Ok (msg, c1, r1))"
      and more: "unat (be_u16 hi lo) < unat (be_u16 hi' lo')"
      and few: "be_u16 hi' lo' \<le> MaxRectanglesPerUpdate"
      and hdr: "read_rectangle_header r1 = Ok (rect, et, r2)"
  shows "(0 \<le> sint et \<longrightarrow> \<not> within_framebuffer c1 rect \<longrightarrow>
            (\<exists>e. FramebufferUpdateMessage_Read M rawEnc cursorPseudo desktopSizePseudo c
                    (pad # hi' # lo' # r) = (calls, Err e) \<and> Code e = Some ErrProtocol)) \<and>
         ((\<exists>cs. fst (FramebufferUpdateMessage_Read M rawEnc cursorPseudo desktopSizePseudo c
                        (pad # hi' # lo' # r)) = calls @ (c1, rect, et) # cs) \<longleftrightarrow>
            ValidateEncodingType et = None \<and> (0 \<le> sint et \<longrightarrow> within_framebuffer c1 rect) \<and>
            build_encMap M rawEnc cursorPseudo desktopSizePseudo c et \<noteq> None)"
proof -
  define encMap where "encMap = build_encMap M rawEnc cursorPseudo desktopSizePseudo c"
  obtain calls0 rest0 where
    loop: "read_rectangles M encMap (unat (be_u16 hi lo)) c r = (calls0, rest0)"
    by (cases "read_rectangles M encMap (unat (be_u16 hi lo)) c r")
  from parsed loop have "read_rectangles M encMap (unat (be_u16 hi lo)) c r =
                           (calls, Ok (Rectangles msg, c1, r1))"
    unfolding FramebufferUpdateMessage_Read_Cons encMap_def [symmetric]
    by (auto simp: rbind_Ok_iff split: if_splits)
  note next_one = read_rectangles_next [OF this more hdr]
  obtain calls' rest where
    whole: "read_rectangles M encMap (unat (be_u16 hi' lo')) c r = (calls', rest)"
    by (cases "read_rectangles M encMap (unat (be_u16 hi' lo')) c r")
  from few have few': "\<not> be_u16 hi' lo' > MaxRectanglesPerUpdate"
    by (simp add: not_less)
  have parser: "FramebufferUpdateMessage_Read M rawEnc cursorPseudo desktopSizePseudo c
                  (pad # hi' # lo' # r) =
                (calls', rbind rest (\<lambda>(rects, c', r'). Ok (\<lparr>Rectangles = rects\<rparr>, c', r')))"
    unfolding FramebufferUpdateMessage_Read_Cons encMap_def [symmetric] whole using few' by simp
  from next_one show ?thesis
    unfolding parser whole encMap_def [symmetric]
    by (auto simp: rbind_def)
qed

text \<open>
  The table of encodings holds the connection's encodings and the three built-in ones.
  \<open>SetEncodings\<close> stores only encodings whose types \<open>ValidateEncodingType\<close> accepts; for
  such a connection, and built-in encodings with their types 0, -239 and -223, every
  type that has a decoder in the table is accepted by the validator.
\<close>

lemma foldl_encMap:
  "foldl (\<lambda>m enc. m(Type M enc \<mapsto> enc)) m0 encs et = Some enc \<Longrightarrow>
   m0 et = Some enc \<or> (enc \<in> set encs \<and> Type M enc = et)"
proof (induction encs arbitrary: m0)
  case Nil
  then show ?case by simp
next
  case (Cons a encs)
  from Cons.prems have "foldl (\<lambda>m enc. m(Type M enc \<mapsto> enc)) (m0(Type M a \<mapsto> a)) encs et = Some enc"
    by (simp only: foldl_Cons)
  from Cons.IH [OF this] show ?case
    by (auto simp: fun_upd_apply split: if_splits)
qed

lemma build_encMap_types:
  assumes "build_encMap M rawEnc cursorPseudo desktopSizePseudo c et = Some enc"
  shows "Type M enc = et \<and>
         (enc \<in> set (Encs c) \<or> enc = rawEnc \<or> enc = cursorPseudo \<or> enc = desktopSizePseudo)"
  using assms foldl_encMap [of M Map.empty "Encs c" et enc]
  by (auto simp: build_encMap_def Let_def split: if_splits)

lemma decoder_types_accepted:
  assumes "\<forall>enc \<in> set (Encs c). ValidateEncodingType (Type M enc) = None"
      and "Type M rawEnc = 0" "Type M cursorPseudo = - 239" "Type M desktopSizePseudo = - 223"
      and "build_encMap M rawEnc cursorPseudo desktopSizePseudo c et \<noteq> None"
  shows "ValidateEncodingType et = None"
proof -
  from assms(5) obtain enc where
    "build_encMap M rawEnc cursorPseudo desktopSizePseudo c et = Some enc"
    by auto
  from build_encMap_types [OF this] assms(1-4)
  have "ValidateEncodingType et = None \<or> et = 0 \<or> et = - 239 \<or> et = - 223"
    by auto
  then show ?thesis
    by (auto simp: ValidateEncodingType_def)
qed

text \<open>
  So, for such a connection, a rectangle with a negative type that has a decoder in the
  table is handed to it, wherever the rectangle lies and whatever its size.
\<close>

lemma negative_type_handed_to_decoder:
  assumes parsed: "FramebufferUpdateMessage_Read M rawEnc cursorPseudo desktopSizePseudo c
                     (pad # hi # lo # r) = (calls, Ok (msg, c1, r1))"
      and more: "unat (be_u16 hi lo) < unat (be_u16 hi' lo')"
      and few: "be_u16 hi' lo' \<le> MaxRectanglesPerUpdate"
      and hdr: "read_rectangle_header r1 = Ok (rect, et, r2)"
      and registered: "\<forall>enc \<in> set (Encs c). ValidateEncodingType (Type M enc) = None"
      and builtin: "Type M rawEnc = 0" "Type M cursorPseudo = - 239"
        "Type M desktopSizePseudo = - 223"
      and negative: "sint et < 0"
      and decoder: "build_encMap M rawEnc cursorPseudo desktopSizePseudo c et \<noteq> None"
  shows "\<exists>cs. fst (FramebufferUpdateMessage_Read M rawEnc cursorPseudo desktopSizePseudo c
                      (pad # hi' # lo' # r)) = calls @ (c1, rect, et) # cs"
proof -
  from decoder_types_accepted [OF registered builtin decoder]
  have "ValidateEncodingType et = None" .
  with FramebufferUpdateMessage_Read_next [OF parsed more few hdr] negative decoder
  show ?thesis
    by simp
qed
















section \<open>C9: what \<open>SetPixelFormat\<close> changes\<close>

text \<open>
  Whatever the outcome, the call leaves the framebuffer size, the desktop name, the
  encodings and the stored pixel format as they were; after a nil error the colour map
  is all zero; when validation fails nothing is written and nothing changes.
\<close>

lemma SetPixelFormat_effects:
  assumes "SetPixelFormat w c format = (c', res)"
  shows "FrameBufferWidth c' = FrameBufferWidth c \<and> FrameBufferHeight c' = FrameBufferHeight c \<and>
         DesktopName c' = DesktopName c \<and> Encs c' = Encs c \<and> PixelFormat c' = PixelFormat c \<and>
         (res = Ok () \<longrightarrow> ColorMap c' = (\<lambda>i. Color_zero)) \<and>
         (ValidatePixelFormat format \<noteq> None \<longrightarrow> c' = c)"
  using assms
  by (auto simp: SetPixelFormat_def writeWithContext_def Let_def
      split: option.splits result.splits prod.splits)

lemma ValidatePixelFormat_indexed: "ValidatePixelFormat (Some PixelFormat8BitIndexed) = None"
  by (simp add: ValidatePixelFormat_def PixelFormat8BitIndexed_def)

lemma writePixelFormat_indexed:
  "writePixelFormat PixelFormat8BitIndexed = Ok [8, 8, 0, 0, 0, 0, 0, 0, 0, 0, 0, 0, 0, 0, 0, 0]"
proof -
  have rep: "replicate 12 (0 :: u8) = [0, 0, 0, 0, 0, 0, 0, 0, 0, 0, 0, 0]"
    by (simp add: eval_nat_numeral)
  show ?thesis
    by (simp add: writePixelFormat_bytes PixelFormat8BitIndexed_def boolByte_def rep
        del: replicate.simps)
qed

lemma keyEvent_bytes:
  assumes "length pfBytes = 16"
  shows "take 4 ((replicate 20 (0 :: u8))[0 := 0]) @
         copy (drop 4 ((replicate 20 (0 :: u8))[0 := 0])) pfBytes = [0, 0, 0, 0] @ pfBytes"
proof -
  have same: "(replicate 20 (0 :: u8))[0 := 0] = replicate 20 0"
    by (simp add: list_eq_iff_nth_eq nth_list_update)
  have four: "replicate 4 (0 :: u8) = [0, 0, 0, 0]"
    by (simp add: eval_nat_numeral)
  show ?thesis
    unfolding same using assms by (simp add: copy_def four del: replicate.simps)
qed

text \<open>
  C9. The claim has the stored \<open>PixelFormat\<close> equal the format that was set after a
  successful call. On a session that holds the 32-bit format, setting the 8-bit indexed
  format succeeds: the 20-byte message goes out and the colour map is cleared, but the
  \<open>PixelFormat\<close> field still holds the 32-bit format.
\<close>

theorem SetPixelFormat_keeps_old_PixelFormat:
  "SetPixelFormat None (conn_of 1920 1080) (Some PixelFormat8BitIndexed) =
     ((conn_of 1920 1080)
        \<lparr>ColorMap := ColorMap_zero,
         written := [0, 0, 0, 0, 8, 8, 0, 0, 0, 0, 0, 0, 0, 0, 0, 0, 0, 0, 0, 0]\<rparr>, Ok ()) \<and>
   PixelFormat (fst (SetPixelFormat None (conn_of 1920 1080) (Some PixelFormat8BitIndexed))) =
     PixelFormat32BitRGBA \<and>
   PixelFormat32BitRGBA \<noteq> PixelFormat8BitIndexed"
proof -
  have "SetPixelFormat None (conn_of 1920 1080) (Some PixelFormat8BitIndexed) =
     ((conn_of 1920 1080)
        \<lparr>ColorMap := ColorMap_zero,
         written := [0, 0, 0, 0, 8, 8, 0, 0, 0, 0, 0, 0, 0, 0, 0, 0, 0, 0, 0, 0]\<rparr>, Ok ())"
    unfolding SetPixelFormat_def ValidatePixelFormat_indexed Let_def
    apply (simp only: option.sel option.case writePixelFormat_indexed wrap_def result.case)
    apply (subst keyEvent_bytes)
     apply simp
    apply (simp add: writeWithContext_def conn_of_def ColorMap_zero_def)
    done
  moreover have "PixelFormat32BitRGBA \<noteq> PixelFormat8BitIndexed"
    by (simp add: PixelFormat32BitRGBA_def PixelFormat8BitIndexed_def)
  ultimately show ?thesis
    by (simp add: conn_of_def)
qed

section \<open>C10: a ServerInit with an empty desktop name\<close>

text \<open>With 16 bytes at hand, \<open>readPixelFormat\<close> succeeds and consumes exactly those.\<close>

lemma readPixelFormat_enough:
  assumes "16 \<le> length r"
  shows "\<exists>pf'. readPixelFormat r pf = Ok (pf', drop 16 r)"
proof -
  have len: "length (take 16 r) = 16"
    using assms by simp
  show ?thesis
    unfolding readPixelFormat_def
    by (simp add: ReadFull_enough assms wrap_Ok rbind_Ok read_u8_enough read_u16_enough len Let_def)
qed

lemma Code_protocolError: "Code (protocolError opn m e) = Some ErrProtocol"
  by (simp add: protocolError_def)

lemma ServerInit_empty_name:
  assumes len: "24 \<le> length r" and zero: "take 4 (drop 20 r) = [0, 0, 0, 0]"
  shows "\<exists>e. handshake_ServerInit isPrintWide c r = Err e \<and> Code e = Some ErrProtocol"
proof -
  have "16 \<le> length (drop 4 r)"
    using len by simp
  from readPixelFormat_enough [OF this, of PixelFormat_zero]
  obtain pf' where pf: "readPixelFormat (drop 4 r) PixelFormat_zero = Ok (pf', drop 20 r)"
    by auto
  have at: "r ! (20 + i) = [0, 0, 0, 0 :: u8] ! i" if "i < 4" for i
  proof -
    have "take 4 (drop 20 r) ! i = r ! (20 + i)"
      using len that by simp
    with zero show ?thesis
      by simp
  qed
  have nth: "r ! 20 = 0" "r ! 21 = 0" "r ! 22 = 0" "r ! 23 = 0"
    using at [of 0] at [of 1] at [of 2] at [of 3] by simp_all
  have name: "read_u32 (drop 20 r) = Ok (0, drop 24 r)"
    using len by (simp add: read_u32_enough nth be_u32_def)
  have vml: "ValidateMessageLength 0 maxDesktopNameLength =
               Some (validationError ''InputValidator.ValidateMessageLength''
                       ''message length cannot be zero'' None)"
    by (simp add: ValidateMessageLength_def)
  show ?thesis
    unfolding handshake_ServerInit_def
    using len
    by (simp add: read_u16_enough wrap_Ok rbind_Ok pf name vml Code_protocolError Let_def
        split: option.splits)
qed

lemma ValidateMessageLength_None_iff:
  "ValidateMessageLength len maxLength = None \<longleftrightarrow> len \<noteq> 0 \<and> len \<le> maxLength"
  by (auto simp: ValidateMessageLength_def)

text \<open>
  C10. Whenever the earlier phases of the handshake succeed and the rest of the server's
  stream holds a ServerInit message (at least its 24 fixed bytes) whose desktop-name
  length, the four bytes after the 16-byte pixel format, is 0, the handshake returns
  an error of category Protocol and \<open>ClientWithContext\<close> ends with the connection closed,
  not running. The length validator accepts a length exactly when it is not zero and not
  above the maximum.
\<close>

theorem empty_desktop_name_fails_handshake:
  "(\<forall>earlier isPrintWide c r c1 r1.
      earlier c r = Ok (c1, r1) \<longrightarrow> 24 \<le> length r1 \<longrightarrow> take 4 (drop 20 r1) = [0, 0, 0, 0] \<longrightarrow>
      (\<exists>e. handshakeWithContext earlier isPrintWide c r = Err e \<and> Code e = Some ErrProtocol \<and>
            ClientWithContext earlier isPrintWide c r = Closed e)) \<and>
   (\<forall>len maxLength. ValidateMessageLength len maxLength = None \<longleftrightarrow> len \<noteq> 0 \<and> len \<le> maxLength)"
proof (intro conjI allI impI)
  fix earlier :: "'a ClientConn \<Rightarrow> reader \<Rightarrow> ('a ClientConn \<times> reader) result"
    and isPrintWide c r c1 r1
  assume pre: "earlier c r = Ok (c1, r1)" and len: "24 \<le> length r1"
    and zero: "take 4 (drop 20 r1) = [0, 0, 0, 0]"
  from ServerInit_empty_name [OF len zero, of isPrintWide c1]
  obtain e where "handshake_ServerInit isPrintWide c1 r1 = Err e" "Code e = Some ErrProtocol"
    by blast
  with pre
  show "\<exists>e. handshakeWithContext earlier isPrintWide c r = Err e \<and> Code e = Some ErrProtocol \<and>
            ClientWithContext earlier isPrintWide c r = Closed e"
    by (simp add: handshakeWithContext_def ClientWithContext_def rbind_Ok)
next
  fix len maxLength :: u32
  show "ValidateMessageLength len maxLength = None \<longleftrightarrow> len \<noteq> 0 \<and> len \<le> maxLength"
    by (rule ValidateMessageLength_None_iff)
qed

text \<open>
  The message \<open>server_init_empty_name\<close> has a valid size and a valid pixel format: the
  handshake fails on the name length, and on nothing before it.
\<close>

lemma handshake_server_init_empty_name:
  "handshake_ServerInit isPrintWide c server_init_empty_name =
     Err (VNCError ''handshake'' ErrProtocol ''server sent invalid desktop name length''
            (Some (VNCError ''InputValidator.ValidateMessageLength'' ErrValidation
                     ''message length cannot be zero'' None)))"
proof -
  have dims: "ValidateFramebufferDimensions (be_u16 3 32) (be_u16 2 88) = None"
    by (simp add: ValidateFramebufferDimensions_def be_u16_def)
  have pf: "readPixelFormat [32, 24, 0, 1, 0, 255, 0, 255, 0, 255, 16, 8, 0, 0, 0, 0, 0, 0, 0, 0]
              PixelFormat_zero = Ok (PixelFormat32BitRGBA, [0, 0, 0, 0])"
    by (simp add: readPixelFormat_def rbind_def wrap_def ReadFull_def read_u8_def read_u16_def
        be_u16_def PixelFormat_zero_def PixelFormat32BitRGBA_def)
  have valid: "ValidatePixelFormat (Some PixelFormat32BitRGBA) = None"
  proof -
    have "countBits 255 = 8"
      by code_simp
    then show ?thesis
      by (simp add: ValidatePixelFormat_def PixelFormat32BitRGBA_def)
  qed
  have name: "read_u32 [0, 0, 0, 0] = Ok (0, [])"
    by (simp add: read_u32_def ReadFull_def be_u32_def)
  show ?thesis
    unfolding handshake_ServerInit_def server_init_empty_name_def
    by (simp add: read_u16_def ReadFull_def wrap_Ok rbind_Ok dims pf valid name
        ValidateMessageLength_def protocolError_def validationError_def)
qed

theorem empty_desktop_name_fails_handshake_witness:
  "no_earlier_phases (conn_of 0 0) server_init_empty_name =
     Ok (conn_of 0 0, server_init_empty_name) \<and>
   24 \<le> length server_init_empty_name \<and>
   take 4 (drop 20 server_init_empty_name) = [0, 0, 0, 0] \<and>
   (\<exists>e. handshakeWithContext no_earlier_phases (\<lambda>r. True) (conn_of 0 0) server_init_empty_name =
           Err e \<and>
         Code e = Some ErrProtocol \<and>
         ClientWithContext no_earlier_phases (\<lambda>r. True) (conn_of 0 0) server_init_empty_name =
           Closed e) \<and>
   handshakeWithContext no_earlier_phases (\<lambda>r. True) (conn_of 0 0) server_init_empty_name =
     Err (VNCError ''handshake'' ErrProtocol ''server sent invalid desktop name length''
            (Some (VNCError ''InputValidator.ValidateMessageLength'' ErrValidation
                     ''message length cannot be zero'' None))) \<and>
   ValidateMessageLength 0 maxDesktopNameLength \<noteq> None \<and>
   ValidateMessageLength 4 maxDesktopNameLength = None"
proof -
  note main = empty_desktop_name_fails_handshake
  have pre: "no_earlier_phases (conn_of 0 0) server_init_empty_name =
               Ok (conn_of 0 0, server_init_empty_name)"
    by (simp add: no_earlier_phases_def)
  have len: "24 \<le> length server_init_empty_name"
    by (simp add: server_init_empty_name_def)
  have zero: "take 4 (drop 20 server_init_empty_name) = [0, 0, 0, 0]"
    by (simp add: server_init_empty_name_def)
  from main pre len zero
  have fails: "\<exists>e. handshakeWithContext no_earlier_phases (\<lambda>r. True) (conn_of 0 0)
                      server_init_empty_name = Err e \<and>
                    Code e = Some ErrProtocol \<and>
                    ClientWithContext no_earlier_phases (\<lambda>r. True) (conn_of 0 0)
                      server_init_empty_name = Closed e"
    by blast
  have exact: "handshakeWithContext no_earlier_phases (\<lambda>r. True) (conn_of 0 0)
                 server_init_empty_name =
     Err (VNCError ''handshake'' ErrProtocol ''server sent invalid desktop name length''
            (Some (VNCError ''InputValidator.ValidateMessageLength'' ErrValidation
                     ''message length cannot be zero'' None)))"
    by (simp add: handshakeWithContext_def pre rbind_Ok handshake_server_init_empty_name)
  from main have iff: "\<And>len maxLength.
      ValidateMessageLength len maxLength = None \<longleftrightarrow> len \<noteq> 0 \<and> len \<le> maxLength"
    by blast
  have "ValidateMessageLength 0 maxDesktopNameLength \<noteq> None"
    unfolding iff by simp
  moreover have "ValidateMessageLength 4 maxDesktopNameLength = None"
    unfolding iff by (simp add: maxDesktopNameLength_def)
  ultimately show ?thesis
    using pre len zero fails exact by blast
qed

end
